theory Spec2Isabelle
  imports Main "HOL-Library.Sublist"
begin

section \<open>Python values and exceptions\<close>

text \<open>
  The handler receives a job as a dynamically typed value (decoded JSON) and returns a
  dictionary. Dictionaries are association lists with string keys; a lookup takes the
  first binding of the key.
\<close>

datatype pyval =
    PNone
  | PBool bool
  | PInt int
  | PStr string
  | PList "pyval list"
  | PDict "(string \<times> pyval) list"

text \<open>Python truthiness, as used by \<^verbatim>\<open>if not image_url\<close>.\<close>

fun truthy :: "pyval \<Rightarrow> bool" where
  "truthy PNone = False"
| "truthy (PBool b) = b"
| "truthy (PInt i) = (i \<noteq> 0)"
| "truthy (PStr s) = (s \<noteq> [])"
| "truthy (PList xs) = (xs \<noteq> [])"
| "truthy (PDict kvs) = (kvs \<noteq> [])"

fun type_name :: "pyval \<Rightarrow> string" where
  "type_name PNone = ''NoneType''"
| "type_name (PBool b) = ''bool''"
| "type_name (PInt i) = ''int''"
| "type_name (PStr s) = ''str''"
| "type_name (PList xs) = ''list''"
| "type_name (PDict kvs) = ''dict''"

text \<open>
  The exception classes the source's \<^verbatim>\<open>except\<close> clauses tell apart.
  \<open>Timeout\<close> stands for \<^verbatim>\<open>requests.exceptions.Timeout\<close> (a subclass of
  \<^verbatim>\<open>RequestException\<close>), \<open>TimeoutExpired\<close> for
  \<^verbatim>\<open>subprocess.TimeoutExpired\<close>, \<open>OtherException\<close> for every other subclass of
  \<^verbatim>\<open>Exception\<close>. The second component is \<^verbatim>\<open>str(e)\<close>.
  All faults of the model derive from \<^verbatim>\<open>Exception\<close>; the interpreter's
  process-control signals (\<^verbatim>\<open>SystemExit\<close>, \<^verbatim>\<open>KeyboardInterrupt\<close>) are not modelled.
\<close>

datatype exc_class =
    Timeout
  | RequestException
  | ImportError
  | TimeoutExpired
  | AttributeError
  | OtherException

datatype pyexc = PyExc (exc_cls: exc_class) (exc_str: string)

text \<open>
  \<^verbatim>\<open>d.get(key, default)\<close>: defined on dictionaries only; on any other value the
  attribute lookup raises \<^verbatim>\<open>AttributeError\<close>.
\<close>

definition dict_get :: "pyval \<Rightarrow> string \<Rightarrow> pyval \<Rightarrow> pyexc + pyval" where
  "dict_get d k dflt =
     (case d of
        PDict kvs \<Rightarrow> Inr (case map_of kvs k of Some v \<Rightarrow> v | None \<Rightarrow> dflt)
      | _ \<Rightarrow> Inl (PyExc AttributeError
                 ([CHR 0x27] @ type_name d @ [CHR 0x27] @ '' object has no attribute ''
                  @ [CHR 0x27] @ ''get'' @ [CHR 0x27])))"

section \<open>The environment\<close>

text \<open>
  Every call that leaves the program is recorded as an event, in call order, and answered
  by the environment. Logging (\<^verbatim>\<open>print\<close>) is not recorded and is taken not to fail.
  \<open>ReqGet url path t\<close> is \<^verbatim>\<open>requests.get(url, stream=True, timeout=t)\<close> streamed into
  \<open>path\<close>; \<open>SubprocessRun cmd t\<close> is \<^verbatim>\<open>subprocess.run(cmd, timeout=t)\<close>;
  \<open>Boto3Client endpoint access secret\<close> builds the storage client (no network call) and
  \<open>UploadFile file bucket key\<close> is the upload itself.
\<close>

datatype event =
    Mkdtemp string
  | Rmtree string
  | ReqGet pyval string nat
  | PathExists string
  | Import string
  | SubprocessRun "string list" nat
  | Glob string string
  | Move string string
  | Boto3Client string string string
  | UploadFile string string string

text \<open>
  The environment of one call of the handler. Each field is the answer to one external
  call: \<open>None\<close> (or \<open>Inr\<close>) when it completes, an exception when it raises.
  \<^item> \<open>requests_get url path\<close>: lines 28 to 37 of \<^verbatim>\<open>download_file\<close>, the request,
    its status check and the chunked write to \<open>path\<close>, as one answer (the first
    exception raised there, if any);
  \<^item> \<open>run_inference cmd\<close>: the inference subprocess (text mode), a return code and its
    error stream; \<open>run_ffmpeg cmd\<close>: the transcoder (byte mode), a return code and the
    outcome of decoding its error stream;
  \<^item> \<open>py_str v\<close>: \<^verbatim>\<open>str(v)\<close> of a value that is not a string.
\<close>

record world =
  environ :: "string \<Rightarrow> string option"
  mkdtemp :: "pyexc + string"
  rmtree :: "string \<Rightarrow> pyexc option"
  requests_get :: "pyval \<Rightarrow> string \<Rightarrow> pyexc option"
  path_exists :: "string \<Rightarrow> bool"
  import_torch :: "pyexc option"
  run_inference :: "string list \<Rightarrow> pyexc + (int \<times> string)"
  glob_mp4 :: "string \<Rightarrow> string list"
  move_file :: "string \<Rightarrow> string \<Rightarrow> pyexc option"
  run_ffmpeg :: "string list \<Rightarrow> pyexc + (int \<times> (pyexc + string))"
  import_boto3 :: "pyexc option"
  boto3_client :: "string \<Rightarrow> string \<Rightarrow> string \<Rightarrow> pyexc option"
  upload_file :: "string \<Rightarrow> string \<Rightarrow> string \<Rightarrow> pyexc option"
  py_str :: "pyval \<Rightarrow> string"

text \<open>\<^verbatim>\<open>os.getenv(name, default)\<close> and the truth value of \<^verbatim>\<open>os.getenv(name)\<close>.\<close>

definition getenv_default :: "world \<Rightarrow> string \<Rightarrow> string \<Rightarrow> string" where
  "getenv_default w name dflt = (case environ w name of Some v \<Rightarrow> v | None \<Rightarrow> dflt)"

definition is_set :: "string option \<Rightarrow> bool" where
  "is_set v = (case v of Some s \<Rightarrow> s \<noteq> [] | None \<Rightarrow> False)"

text \<open>\<^verbatim>\<open>f"{v}"\<close>: a string is inserted as it is.\<close>

definition format_val :: "world \<Rightarrow> pyval \<Rightarrow> string" where
  "format_val w v = (case v of PStr s \<Rightarrow> s | _ \<Rightarrow> py_str w v)"

text \<open>
  \<^verbatim>\<open>os.path.join(a, b)\<close> for a relative \<open>b\<close>, and \<^verbatim>\<open>Path(p).parent\<close> for a
  path without repeated or trailing separators.
\<close>

definition path_join :: "string \<Rightarrow> string \<Rightarrow> string" where
  "path_join a b = (if a = [] \<or> last a = CHR ''/'' then a @ b else a @ ''/'' @ b)"

definition path_parent :: "string \<Rightarrow> string" where
  "path_parent p =
     (let r = dropWhile (\<lambda>c. c \<noteq> CHR ''/'') (rev p)
      in if r = [] then ''.'' else if tl r = [] then ''/'' else rev (tl r))"

definition MODEL_DIR :: string where
  "MODEL_DIR = ''/workspace/MuseTalk/models/musetalk''"

definition WORKSPACE :: string where
  "WORKSPACE = ''/workspace/MuseTalk''"

section \<open>Content fetcher: download_file\<close>

text \<open>
  A stage returns the pair \<^verbatim>\<open>(value, None)\<close> or \<^verbatim>\<open>(None, message)\<close> with a
  non-empty message; the model returns \<open>Inr value\<close> or \<open>Inl message\<close>, and the
  caller's \<^verbatim>\<open>if error:\<close> is the test for \<open>Inl\<close>. The \<^verbatim>\<open>except\<close> clauses are
  tried in the source's order.
\<close>

definition download_file :: "world \<Rightarrow> pyval \<Rightarrow> string \<Rightarrow> (string + string) \<times> event list" where
  "download_file w url local_path =
     (case requests_get w url local_path of
        None \<Rightarrow> (Inr local_path, [ReqGet url local_path 60])
      | Some e \<Rightarrow>
          (Inl (if exc_cls e = Timeout then ''Download timeout after 60 seconds''
                else if exc_cls e = RequestException then ''Download failed: '' @ exc_str e
                else ''Unexpected download error: '' @ exc_str e),
           [ReqGet url local_path 60]))"

section \<open>Artifact publisher: upload_to_s3\<close>

definition upload_to_s3 :: "world \<Rightarrow> string \<Rightarrow> string \<Rightarrow> string \<Rightarrow> (string + string) \<times> event list" where
  "upload_to_s3 w file_path bucket_name object_name =
     (case import_boto3 w of
        Some e \<Rightarrow> (Inl (''S3 upload failed: '' @ exc_str e), [Import ''boto3''])
      | None \<Rightarrow>
          let endpoint_url = getenv_default w ''BUCKET_ENDPOINT_URL'' ''https://storage.runpod.io'';
              access_key = environ w ''BUCKET_ACCESS_KEY_ID'';
              secret_key = environ w ''BUCKET_SECRET_ACCESS_KEY'';
              fallback = (\<not> is_set access_key \<or> \<not> is_set secret_key);
              access_key = (if fallback then environ w ''RUNPOD_S3_ACCESS_KEY'' else access_key);
              secret_key = (if fallback then environ w ''RUNPOD_S3_SECRET_KEY'' else secret_key);
              endpoint_url =
                (if fallback then getenv_default w ''RUNPOD_S3_ENDPOINT'' endpoint_url
                 else endpoint_url)
          in if \<not> is_set access_key \<or> \<not> is_set secret_key
             then (Inl ''S3 credentials not configured'', [Import ''boto3''])
             else
               (case boto3_client w endpoint_url (the access_key) (the secret_key) of
                  Some e \<Rightarrow>
                    (Inl (''S3 upload failed: '' @ exc_str e),
                     [Import ''boto3'',
                      Boto3Client endpoint_url (the access_key) (the secret_key)])
                | None \<Rightarrow>
                    (case upload_file w file_path bucket_name object_name of
                       Some e \<Rightarrow>
                         (Inl (''S3 upload failed: '' @ exc_str e),
                          [Import ''boto3'',
                           Boto3Client endpoint_url (the access_key) (the secret_key),
                           UploadFile file_path bucket_name object_name])
                     | None \<Rightarrow>
                         (Inr (endpoint_url @ ''/'' @ bucket_name @ ''/'' @ object_name),
                          [Import ''boto3'',
                           Boto3Client endpoint_url (the access_key) (the secret_key),
                           UploadFile file_path bucket_name object_name]))))"

section \<open>Synthesis engine: generate_video_musetalk\<close>

text \<open>
  The message an exception raised inside the function turns into: the inner
  \<^verbatim>\<open>except ImportError\<close> first, then \<^verbatim>\<open>except subprocess.TimeoutExpired\<close>, then
  \<^verbatim>\<open>except Exception\<close>. The same clauses serve both strategies.
\<close>

definition synthesis_except :: "pyexc \<Rightarrow> string" where
  "synthesis_except e =
     (if exc_cls e = ImportError then ''MuseTalk import failed: '' @ exc_str e
      else if exc_cls e = TimeoutExpired then ''Video generation timeout (>5 minutes)''
      else ''Video generation error: '' @ exc_str e)"

definition inference_script :: string where
  "inference_script = path_join (path_join WORKSPACE ''scripts'') ''inference.py''"

definition inference_cmd :: "string \<Rightarrow> string \<Rightarrow> string \<Rightarrow> string list" where
  "inference_cmd image_path audio_path output_path =
     [''python'', inference_script,
      ''--source_image'', image_path,
      ''--driven_audio'', audio_path,
      ''--result_dir'', path_parent output_path,
      ''--fps'', ''25'',
      ''--batch_size'', ''8'']"

definition ffmpeg_cmd :: "string \<Rightarrow> string \<Rightarrow> string \<Rightarrow> string list" where
  "ffmpeg_cmd image_path audio_path output_path =
     [''ffmpeg'', ''-y'',
      ''-loop'', ''1'',
      ''-i'', image_path,
      ''-i'', audio_path,
      ''-c:v'', ''libx264'',
      ''-tune'', ''stillimage'',
      ''-c:a'', ''aac'',
      ''-b:a'', ''192k'',
      ''-pix_fmt'', ''yuv420p'',
      ''-shortest'',
      output_path]"

definition primary_strategy :: "world \<Rightarrow> string \<Rightarrow> string \<Rightarrow> string \<Rightarrow> (string + string) \<times> event list" where
  "primary_strategy w image_path audio_path output_path =
     (let cmd = inference_cmd image_path audio_path output_path;
          result_dir = path_parent output_path
      in case run_inference w cmd of
           Inl e \<Rightarrow> (Inl (synthesis_except e), [SubprocessRun cmd 300])
         | Inr (returncode, stderr) \<Rightarrow>
             if returncode \<noteq> 0
             then (Inl (''MuseTalk inference failed: '' @ stderr), [SubprocessRun cmd 300])
             else
               (case glob_mp4 w result_dir of
                  [] \<Rightarrow>
                    (Inl ''No output video generated'',
                     [SubprocessRun cmd 300, Glob result_dir ''*.mp4''])
                | v # vs \<Rightarrow>
                    (case move_file w v output_path of
                       Some e \<Rightarrow>
                         (Inl (synthesis_except e),
                          [SubprocessRun cmd 300, Glob result_dir ''*.mp4'', Move v output_path])
                     | None \<Rightarrow>
                         (Inr output_path,
                          [SubprocessRun cmd 300, Glob result_dir ''*.mp4'',
                           Move v output_path]))))"

definition fallback_strategy :: "world \<Rightarrow> string \<Rightarrow> string \<Rightarrow> string \<Rightarrow> (string + string) \<times> event list" where
  "fallback_strategy w image_path audio_path output_path =
     (let cmd = ffmpeg_cmd image_path audio_path output_path
      in case run_ffmpeg w cmd of
           Inl e \<Rightarrow> (Inl (synthesis_except e), [SubprocessRun cmd 60])
         | Inr (returncode, stderr) \<Rightarrow>
             if returncode \<noteq> 0
             then
               (case stderr of
                  Inl e \<Rightarrow> (Inl (synthesis_except e), [SubprocessRun cmd 60])
                | Inr s \<Rightarrow> (Inl (''FFmpeg test video failed: '' @ s), [SubprocessRun cmd 60]))
             else (Inr output_path, [SubprocessRun cmd 60]))"

definition generate_video_musetalk :: "world \<Rightarrow> string \<Rightarrow> string \<Rightarrow> string \<Rightarrow> (string + string) \<times> event list" where
  "generate_video_musetalk w image_path audio_path output_path =
     (if \<not> path_exists w MODEL_DIR
      then (Inl ''MuseTalk models not found - run model download first'', [PathExists MODEL_DIR])
      else
        (case import_torch w of
           Some e \<Rightarrow> (Inl (synthesis_except e), [PathExists MODEL_DIR, Import ''torch''])
         | None \<Rightarrow>
             if path_exists w inference_script
             then
               (let (r, t) = primary_strategy w image_path audio_path output_path
                in (r, [PathExists MODEL_DIR, Import ''torch'', PathExists inference_script] @ t))
             else
               (let (r, t) = fallback_strategy w image_path audio_path output_path
                in (r, [PathExists MODEL_DIR, Import ''torch'', PathExists inference_script] @ t))))"

section \<open>Job controller: handler\<close>

definition error_result :: "string \<Rightarrow> pyval" where
  "error_result msg = PDict [(''error'', PStr msg)]"

definition success_result :: "string \<Rightarrow> pyval \<Rightarrow> pyval" where
  "success_result video_url job_id =
     PDict [(''output_video_url'', PStr video_url),
            (''status'', PStr ''completed''),
            (''model'', PStr ''musetalk''),
            (''job_id'', job_id)]"

text \<open>The body of the inner \<^verbatim>\<open>try\<close>: the four stages, each after the one before.\<close>

definition pipeline :: "world \<Rightarrow> pyval \<Rightarrow> pyval \<Rightarrow> pyval \<Rightarrow> string \<Rightarrow> pyval \<times> event list" where
  "pipeline w image_url audio_url job_id temp_dir =
     (let image_path = path_join temp_dir ''input.png''
      in case download_file w image_url image_path of
           (Inl error, t1) \<Rightarrow> (error_result (''Failed to download image: '' @ error), t1)
         | (Inr downloaded_image, t1) \<Rightarrow>
             (let audio_path = path_join temp_dir ''input.wav''
              in case download_file w audio_url audio_path of
                   (Inl error, t2) \<Rightarrow>
                     (error_result (''Failed to download audio: '' @ error), t1 @ t2)
                 | (Inr downloaded_audio, t2) \<Rightarrow>
                     (let output_path = path_join temp_dir ''output.mp4''
                      in case generate_video_musetalk w downloaded_image downloaded_audio
                                output_path of
                           (Inl error, t3) \<Rightarrow> (error_result error, t1 @ t2 @ t3)
                         | (Inr video_path, t3) \<Rightarrow>
                             (let bucket = getenv_default w ''RUNPOD_S3_BUCKET''
                                             ''flowsmartly-avatars'';
                                  object_name = ''musetalk/'' @ format_val w job_id @ ''.mp4''
                              in case upload_to_s3 w video_path bucket object_name of
                                   (Inl error, t4) \<Rightarrow> (error_result error, t1 @ t2 @ t3 @ t4)
                                 | (Inr video_url, t4) \<Rightarrow>
                                     (success_result video_url job_id,
                                      t1 @ t2 @ t3 @ t4)))))"

text \<open>
  What one call of the handler leaves behind: what it returns (\<open>Inl\<close>: an exception
  leaves the function), the external calls it made, and the scratch directories it
  created that still exist.
\<close>

record exec =
  ret :: "pyexc + pyval"
  calls :: "event list"
  leftover :: "string list"

text \<open>
  \<^verbatim>\<open>try: body finally: try: shutil.rmtree(temp_dir) except: pass\<close>, for a body that
  returned or raised \<open>r\<close> after the calls \<open>t\<close>. \<^verbatim>\<open>rmtree\<close> raises when it could not
  remove the tree, and the directory is then still there.
\<close>

definition finally_cleanup :: "world \<Rightarrow> string \<Rightarrow> (pyexc + pyval) \<times> event list \<Rightarrow> exec" where
  "finally_cleanup w temp_dir body =
     \<lparr>ret = fst body,
      calls = Mkdtemp ''musetalk_'' # snd body @ [Rmtree temp_dir],
      leftover = (case rmtree w temp_dir of None \<Rightarrow> [] | Some e \<Rightarrow> [temp_dir])\<rparr>"

text \<open>The body of the outer \<^verbatim>\<open>try\<close>.\<close>

definition handler_try :: "world \<Rightarrow> pyval \<Rightarrow> exec" where
  "handler_try w job =
     (case dict_get job ''input'' (PDict []) of
        Inl e \<Rightarrow> \<lparr>ret = Inl e, calls = [], leftover = []\<rparr>
      | Inr job_input \<Rightarrow>
     (case dict_get job ''id'' (PStr ''unknown'') of
        Inl e \<Rightarrow> \<lparr>ret = Inl e, calls = [], leftover = []\<rparr>
      | Inr job_id \<Rightarrow>
     (case dict_get job_input ''input_image_url'' PNone of
        Inl e \<Rightarrow> \<lparr>ret = Inl e, calls = [], leftover = []\<rparr>
      | Inr image_url \<Rightarrow>
          if \<not> truthy image_url
          then \<lparr>ret = Inr (error_result ''input_image_url is required''),
                calls = [], leftover = []\<rparr>
          else
     (case dict_get job_input ''input_audio_url'' PNone of
        Inl e \<Rightarrow> \<lparr>ret = Inl e, calls = [], leftover = []\<rparr>
      | Inr audio_url \<Rightarrow>
          if \<not> truthy audio_url
          then \<lparr>ret = Inr (error_result ''input_audio_url is required''),
                calls = [], leftover = []\<rparr>
          else
     (case mkdtemp w of
        Inl e \<Rightarrow> \<lparr>ret = Inl e, calls = [Mkdtemp ''musetalk_''], leftover = []\<rparr>
      | Inr temp_dir \<Rightarrow>
          (let (r, t) = pipeline w image_url audio_url job_id temp_dir
           in finally_cleanup w temp_dir (Inr r, t)))))))"

text \<open>The outer \<^verbatim>\<open>except Exception\<close>.\<close>

definition handler :: "world \<Rightarrow> pyval \<Rightarrow> exec" where
  "handler w job =
     (let x = handler_try w job
      in case ret x of
           Inl e \<Rightarrow> x\<lparr>ret := Inr (error_result (''Handler error: '' @ exc_str e))\<rparr>
         | Inr v \<Rightarrow> x)"

section \<open>Notions the properties are stated with\<close>

text \<open>
  The fields the handler reads from a job that passes its input validation: the image
  URL, the audio URL and the job id, when \<^verbatim>\<open>job\<close> and its \<^verbatim>\<open>input\<close> are
  dictionaries and both URLs are truthy.
\<close>

definition job_fields :: "pyval \<Rightarrow> (pyval \<times> pyval \<times> pyval) option" where
  "job_fields job =
     (case dict_get job ''input'' (PDict []) of
        Inl e \<Rightarrow> None
      | Inr job_input \<Rightarrow>
     (case dict_get job ''id'' (PStr ''unknown'') of
        Inl e \<Rightarrow> None
      | Inr job_id \<Rightarrow>
     (case dict_get job_input ''input_image_url'' PNone of
        Inl e \<Rightarrow> None
      | Inr image_url \<Rightarrow>
     (case dict_get job_input ''input_audio_url'' PNone of
        Inl e \<Rightarrow> None
      | Inr audio_url \<Rightarrow>
          if truthy image_url \<and> truthy audio_url
          then Some (image_url, audio_url, job_id) else None))))"

text \<open>
  The pipeline stage an external call belongs to, for a job whose workspace is
  \<open>temp_dir\<close>; acquiring and releasing the workspace belong to no stage.
\<close>

datatype stage = FetchImage | FetchAudio | Synthesize | Publish

fun stage_of :: "string \<Rightarrow> event \<Rightarrow> stage option" where
  "stage_of temp_dir (ReqGet url path t) =
     (if path = path_join temp_dir ''input.png'' then Some FetchImage
      else if path = path_join temp_dir ''input.wav'' then Some FetchAudio
      else None)"
| "stage_of temp_dir (PathExists p) = Some Synthesize"
| "stage_of temp_dir (Import m) = (if m = ''torch'' then Some Synthesize else Some Publish)"
| "stage_of temp_dir (SubprocessRun cmd t) = Some Synthesize"
| "stage_of temp_dir (Glob d pat) = Some Synthesize"
| "stage_of temp_dir (Move a b) = Some Synthesize"
| "stage_of temp_dir (Boto3Client e a s) = Some Publish"
| "stage_of temp_dir (UploadFile f b k) = Some Publish"
| "stage_of temp_dir (Mkdtemp p) = None"
| "stage_of temp_dir (Rmtree d) = None"

text \<open>The stages a trace went through, in order, each run of calls of one stage once.\<close>

definition stages_of :: "string \<Rightarrow> event list \<Rightarrow> stage list" where
  "stages_of temp_dir t = remdups_adj (List.map_filter (stage_of temp_dir) t)"

definition is_spawn :: "event \<Rightarrow> bool" where
  "is_spawn ev = (case ev of SubprocessRun cmd t \<Rightarrow> True | _ \<Rightarrow> False)"

definition is_network :: "event \<Rightarrow> bool" where
  "is_network ev = (case ev of ReqGet u p t \<Rightarrow> True | UploadFile f b k \<Rightarrow> True | _ \<Rightarrow> False)"

text \<open>
  The two credential pairs of the publisher, each resolved when both of its variables
  are set and non-empty (the source's test \<^verbatim>\<open>not access_key or not secret_key\<close>).
\<close>

definition primary_resolves :: "world \<Rightarrow> bool" where
  "primary_resolves w =
     (is_set (environ w ''BUCKET_ACCESS_KEY_ID'') \<and> is_set (environ w ''BUCKET_SECRET_ACCESS_KEY''))"

definition fallback_resolves :: "world \<Rightarrow> bool" where
  "fallback_resolves w =
     (is_set (environ w ''RUNPOD_S3_ACCESS_KEY'') \<and> is_set (environ w ''RUNPOD_S3_SECRET_KEY''))"

text \<open>
  The error kinds of the synthesis stage are told apart by their messages only;
  the one message that names the fallback transcoding step is the FallbackFailed kind.
\<close>

definition is_fallback_failed :: "string \<Rightarrow> bool" where
  "is_fallback_failed msg = prefix ''FFmpeg test video failed: '' msg"

section \<open>Example environments and jobs\<close>

text \<open>
  An environment in which every external call succeeds, with the primary storage
  credentials and the inference script in place, and a well-formed job.
\<close>

definition ex_world :: world where
  "ex_world =
     \<lparr>environ = map_of [(''BUCKET_ACCESS_KEY_ID'', ''AK1''), (''BUCKET_SECRET_ACCESS_KEY'', ''SK1'')],
      mkdtemp = Inr ''/tmp/musetalk_a1b2'',
      rmtree = (\<lambda>d. None),
      requests_get = (\<lambda>u p. None),
      path_exists = (\<lambda>p. True),
      import_torch = None,
      run_inference = (\<lambda>cmd. Inr (0, [])),
      glob_mp4 = (\<lambda>d. [path_join d ''result.mp4'']),
      move_file = (\<lambda>a b. None),
      run_ffmpeg = (\<lambda>cmd. Inr (0, Inr [])),
      import_boto3 = None,
      boto3_client = (\<lambda>e a s. None),
      upload_file = (\<lambda>f b k. None),
      py_str = type_name\<rparr>"

definition ex_job :: pyval where
  "ex_job =
     PDict [(''id'', PStr ''j1''),
            (''input'', PDict [(''input_image_url'', PStr ''http://h/a.png''),
                               (''input_audio_url'', PStr ''http://h/a.wav'')])]"

section \<open>Auxiliary facts\<close>

lemma dict_get_Inr_iff: "(\<exists>v. dict_get d k x = Inr v) = (\<exists>kvs. d = PDict kvs)"
  by (cases d) (simp_all add: dict_get_def)


lemma job_fields_SomeD:
  "job_fields job = Some (iu, au, jid) \<Longrightarrow>
     \<exists>ji. dict_get job ''input'' (PDict []) = Inr ji \<and>
          dict_get job ''id'' (PStr ''unknown'') = Inr jid \<and>
          dict_get ji ''input_image_url'' PNone = Inr iu \<and> truthy iu \<and>
          dict_get ji ''input_audio_url'' PNone = Inr au \<and> truthy au"
  by (auto simp: job_fields_def split: sum.splits if_splits)

lemma handler_try_valid:
  assumes "job_fields job = Some (iu, au, jid)" and "mkdtemp w = Inr d"
  shows "handler_try w job =
           finally_cleanup w d (Inr (fst (pipeline w iu au jid d)), snd (pipeline w iu au jid d))"
proof -
  from job_fields_SomeD [OF assms(1)] obtain ji where
    "dict_get job ''input'' (PDict []) = Inr ji"
    "dict_get job ''id'' (PStr ''unknown'') = Inr jid"
    "dict_get ji ''input_image_url'' PNone = Inr iu" "truthy iu"
    "dict_get ji ''input_audio_url'' PNone = Inr au" "truthy au"
    by blast
  then show ?thesis
    using assms(2) by (simp add: handler_try_def split: prod.splits)
qed

lemma handler_valid:
  assumes "job_fields job = Some (iu, au, jid)" and "mkdtemp w = Inr d"
  shows "handler w job =
           finally_cleanup w d (Inr (fst (pipeline w iu au jid d)), snd (pipeline w iu au jid d))"
  by (simp add: handler_def handler_try_valid [OF assms] finally_cleanup_def)

lemma handler_try_invalid:
  "job_fields job = None \<Longrightarrow> calls (handler_try w job) = [] \<and> leftover (handler_try w job) = []"
  by (auto simp: job_fields_def handler_try_def split: sum.splits if_splits)

lemma handler_calls: "calls (handler w job) = calls (handler_try w job)"
  by (simp add: handler_def Let_def split: sum.splits)

lemma handler_leftover: "leftover (handler w job) = leftover (handler_try w job)"
  by (simp add: handler_def Let_def split: sum.splits)

lemma download_file_trace:
  "snd (download_file w url p) = [ReqGet url p 60]"
  by (simp add: download_file_def split: option.splits)

lemma download_file_ok:
  "requests_get w url p = None \<Longrightarrow> download_file w url p = (Inr p, [ReqGet url p 60])"
  by (simp add: download_file_def)

lemma pipeline_image_error:
  "download_file w iu (path_join d ''input.png'') = (Inl err, t1) \<Longrightarrow>
   pipeline w iu au jid d = (error_result (''Failed to download image: '' @ err), t1)"
  by (simp add: pipeline_def)

lemma pipeline_audio_error:
  "download_file w iu (path_join d ''input.png'') = (Inr p1, t1) \<Longrightarrow>
   download_file w au (path_join d ''input.wav'') = (Inl err, t2) \<Longrightarrow>
   pipeline w iu au jid d = (error_result (''Failed to download audio: '' @ err), t1 @ t2)"
  by (simp add: pipeline_def)

lemma pipeline_synthesis_error:
  "download_file w iu (path_join d ''input.png'') = (Inr p1, t1) \<Longrightarrow>
   download_file w au (path_join d ''input.wav'') = (Inr p2, t2) \<Longrightarrow>
   generate_video_musetalk w p1 p2 (path_join d ''output.mp4'') = (Inl err, t3) \<Longrightarrow>
   pipeline w iu au jid d = (error_result err, t1 @ t2 @ t3)"
  by (simp add: pipeline_def)

lemma pipeline_publish_error:
  "download_file w iu (path_join d ''input.png'') = (Inr p1, t1) \<Longrightarrow>
   download_file w au (path_join d ''input.wav'') = (Inr p2, t2) \<Longrightarrow>
   generate_video_musetalk w p1 p2 (path_join d ''output.mp4'') = (Inr v, t3) \<Longrightarrow>
   upload_to_s3 w v (getenv_default w ''RUNPOD_S3_BUCKET'' ''flowsmartly-avatars'')
      (''musetalk/'' @ format_val w jid @ ''.mp4'') = (Inl err, t4) \<Longrightarrow>
   pipeline w iu au jid d = (error_result err, t1 @ t2 @ t3 @ t4)"
  by (simp add: pipeline_def)

lemma pipeline_success:
  "download_file w iu (path_join d ''input.png'') = (Inr p1, t1) \<Longrightarrow>
   download_file w au (path_join d ''input.wav'') = (Inr p2, t2) \<Longrightarrow>
   generate_video_musetalk w p1 p2 (path_join d ''output.mp4'') = (Inr v, t3) \<Longrightarrow>
   upload_to_s3 w v (getenv_default w ''RUNPOD_S3_BUCKET'' ''flowsmartly-avatars'')
      (''musetalk/'' @ format_val w jid @ ''.mp4'') = (Inr url, t4) \<Longrightarrow>
   pipeline w iu au jid d = (success_result url jid, t1 @ t2 @ t3 @ t4)"
  by (simp add: pipeline_def)


lemma handler_try_calls_nil:
  "job_fields job = None \<Longrightarrow> ret (handler_try w job) = Inr v \<Longrightarrow>
     v = error_result ''input_image_url is required'' \<or>
     v = error_result ''input_audio_url is required''"
  by (auto simp: job_fields_def handler_try_def split: sum.splits if_splits)


section \<open>The job controller returns a result\<close>





section \<open>Workspace release\<close>

lemma no_rmtree_download: "Rmtree x \<notin> set (snd (download_file w u p))"
  by (simp add: download_file_trace)

lemma no_rmtree_upload: "Rmtree x \<notin> set (snd (upload_to_s3 w f b k))"
  by (simp add: upload_to_s3_def Let_def split: option.splits)

lemma no_rmtree_primary: "Rmtree x \<notin> set (snd (primary_strategy w img aud out))"
  by (simp add: primary_strategy_def Let_def split: sum.splits prod.splits list.splits option.splits)

lemma no_rmtree_fallback: "Rmtree x \<notin> set (snd (fallback_strategy w img aud out))"
  by (simp add: fallback_strategy_def Let_def split: sum.splits prod.splits)

lemma no_rmtree_generate: "Rmtree x \<notin> set (snd (generate_video_musetalk w img aud out))"
  using no_rmtree_primary [of x w img aud out] no_rmtree_fallback [of x w img aud out]
  by (auto simp: generate_video_musetalk_def split: option.splits prod.splits)

lemma no_rmtree_pipeline: "Rmtree x \<notin> set (snd (pipeline w iu au jid d))"
proof -
  obtain r1 t1 where s1: "download_file w iu (path_join d ''input.png'') = (r1, t1)"
    by (cases "download_file w iu (path_join d ''input.png'')")
  obtain r2 t2 where s2: "download_file w au (path_join d ''input.wav'') = (r2, t2)"
    by (cases "download_file w au (path_join d ''input.wav'')")
  have n1: "Rmtree x \<notin> set t1"
    using no_rmtree_download [of x w iu "path_join d ''input.png''"] s1 by simp
  have n2: "Rmtree x \<notin> set t2"
    using no_rmtree_download [of x w au "path_join d ''input.wav''"] s2 by simp
  show ?thesis
  proof (cases r1)
    case (Inl err)
    with s1 n1 show ?thesis by (simp add: pipeline_image_error)
  next
    case p1: (Inr p1)
    show ?thesis
    proof (cases r2)
      case (Inl err)
      with s1 s2 p1 n1 n2 show ?thesis by (simp add: pipeline_audio_error)
    next
      case p2: (Inr p2)
      obtain r3 t3 where
        s3: "generate_video_musetalk w p1 p2 (path_join d ''output.mp4'') = (r3, t3)"
        by (cases "generate_video_musetalk w p1 p2 (path_join d ''output.mp4'')")
      have n3: "Rmtree x \<notin> set t3"
        using no_rmtree_generate [of x w p1 p2 "path_join d ''output.mp4''"] s3 by simp
      show ?thesis
      proof (cases r3)
        case (Inl err)
        with s1 s2 s3 p1 p2 n1 n2 n3 show ?thesis by (simp add: pipeline_synthesis_error)
      next
        case v: (Inr v)
        obtain r4 t4 where
          s4: "upload_to_s3 w v (getenv_default w ''RUNPOD_S3_BUCKET'' ''flowsmartly-avatars'')
                 (''musetalk/'' @ format_val w jid @ ''.mp4'') = (r4, t4)"
          by (cases "upload_to_s3 w v (getenv_default w ''RUNPOD_S3_BUCKET'' ''flowsmartly-avatars'')
                 (''musetalk/'' @ format_val w jid @ ''.mp4'')")
        have n4: "Rmtree x \<notin> set t4"
          using no_rmtree_upload [of x w v "getenv_default w ''RUNPOD_S3_BUCKET'' ''flowsmartly-avatars''"
                 "''musetalk/'' @ format_val w jid @ ''.mp4''"] s4 by simp
        show ?thesis
        proof (cases r4)
          case (Inl err)
          with s1 s2 s3 s4 p1 p2 v n1 n2 n3 n4 show ?thesis by (simp add: pipeline_publish_error)
        next
          case (Inr url)
          with s1 s2 s3 s4 p1 p2 v n1 n2 n3 n4 show ?thesis by (simp add: pipeline_success)
        qed
      qed
    qed
  qed
qed

lemma download_rmtree_indep:
  "download_file (w\<lparr>rmtree := f\<rparr>) u p = download_file w u p"
  by (simp add: download_file_def)

lemma primary_rmtree_indep:
  "primary_strategy (w\<lparr>rmtree := f\<rparr>) img aud out = primary_strategy w img aud out"
  by (simp add: primary_strategy_def Let_def cong: sum.case_cong option.case_cong list.case_cong if_cong prod.case_cong)

lemma fallback_rmtree_indep:
  "fallback_strategy (w\<lparr>rmtree := f\<rparr>) img aud out = fallback_strategy w img aud out"
  by (simp add: fallback_strategy_def Let_def cong: sum.case_cong option.case_cong list.case_cong if_cong prod.case_cong)

lemma generate_rmtree_indep:
  "generate_video_musetalk (w\<lparr>rmtree := f\<rparr>) img aud out = generate_video_musetalk w img aud out"
  by (simp add: generate_video_musetalk_def primary_rmtree_indep fallback_rmtree_indep cong: option.case_cong if_cong)

lemma upload_rmtree_indep:
  "upload_to_s3 (w\<lparr>rmtree := f\<rparr>) a b c = upload_to_s3 w a b c"
  by (simp add: upload_to_s3_def getenv_default_def Let_def cong: option.case_cong if_cong)

lemma format_rmtree_indep: "format_val (w\<lparr>rmtree := f\<rparr>) v = format_val w v"
  by (cases v) (simp_all add: format_val_def)

lemma getenv_rmtree_indep: "getenv_default (w\<lparr>rmtree := f\<rparr>) n v = getenv_default w n v"
  by (simp add: getenv_default_def)

lemma pipeline_rmtree_indep:
  "pipeline (w\<lparr>rmtree := f\<rparr>) iu au jid d = pipeline w iu au jid d"
  by (simp add: pipeline_def download_rmtree_indep generate_rmtree_indep upload_rmtree_indep
      getenv_rmtree_indep format_rmtree_indep Let_def cong: sum.case_cong prod.case_cong)

text \<open>
  C2 (as amended). For a job that passes input validation and whose workspace
  \<open>temp_dir\<close> was acquired, the handler asks for the removal of the workspace exactly
  once, as its last external call, on every exit path; when that removal completes, no
  workspace is left at return; and the outcome of the removal never changes what the
  handler returns. The last two conjuncts are the \<^verbatim>\<open>finally\<close> clause itself, for a
  body that returned or raised: the removal is requested and the body's outcome is kept.
\<close>

theorem workspace_release:
  assumes "job_fields job = Some (image_url, audio_url, job_id)" and "mkdtemp w = Inr temp_dir"
  shows "(\<exists>t. calls (handler w job) = Mkdtemp ''musetalk_'' # t @ [Rmtree temp_dir] \<and>
              (\<forall>x. Rmtree x \<notin> set t)) \<and>
         (rmtree w temp_dir = None \<longrightarrow> leftover (handler w job) = []) \<and>
         ret (handler (w\<lparr>rmtree := f\<rparr>) job) = ret (handler w job) \<and>
         ret (finally_cleanup w temp_dir body) = fst body \<and>
         last (calls (finally_cleanup w temp_dir body)) = Rmtree temp_dir"
proof -
  let ?p = "pipeline w image_url audio_url job_id temp_dir"
  have h: "handler w job = finally_cleanup w temp_dir (Inr (fst ?p), snd ?p)"
    by (rule handler_valid [OF assms])
  have m: "mkdtemp (w\<lparr>rmtree := f\<rparr>) = Inr temp_dir" using assms(2) by simp
  have h': "handler (w\<lparr>rmtree := f\<rparr>) job =
              finally_cleanup (w\<lparr>rmtree := f\<rparr>) temp_dir (Inr (fst ?p), snd ?p)"
    using handler_valid [OF assms(1) m] by (simp add: pipeline_rmtree_indep)
  have c1: "\<exists>t. calls (handler w job) = Mkdtemp ''musetalk_'' # t @ [Rmtree temp_dir] \<and>
              (\<forall>x. Rmtree x \<notin> set t)"
    using h no_rmtree_pipeline [of _ w image_url audio_url job_id temp_dir]
    by (simp add: finally_cleanup_def)
  have c2: "rmtree w temp_dir = None \<longrightarrow> leftover (handler w job) = []"
    using h by (simp add: finally_cleanup_def)
  have c3: "ret (handler (w\<lparr>rmtree := f\<rparr>) job) = ret (handler w job)"
    using h h' by (simp add: finally_cleanup_def)
  have c4: "ret (finally_cleanup w temp_dir body) = fst body"
    by (simp add: finally_cleanup_def)
  have c5: "last (calls (finally_cleanup w temp_dir body)) = Rmtree temp_dir"
    by (simp add: finally_cleanup_def)
  from c1 c2 c3 c4 c5 show ?thesis by blast
qed

lemma ex_job_fields:
  "job_fields ex_job = Some (PStr ''http://h/a.png'', PStr ''http://h/a.wav'', PStr ''j1'')"
  by (simp add: job_fields_def ex_job_def dict_get_def)

theorem workspace_release_witness:
  "job_fields ex_job = Some (PStr ''http://h/a.png'', PStr ''http://h/a.wav'', PStr ''j1'') \<and>
   mkdtemp ex_world = Inr ''/tmp/musetalk_a1b2'' \<and>
   rmtree ex_world ''/tmp/musetalk_a1b2'' = None \<and>
   leftover (handler ex_world ex_job) = [] \<and>
   ret (handler (ex_world\<lparr>rmtree := (\<lambda>d. Some (PyExc OtherException ''busy''))\<rparr>) ex_job) =
     ret (handler ex_world ex_job)"
proof -
  have m: "mkdtemp ex_world = Inr ''/tmp/musetalk_a1b2''" by (simp add: ex_world_def)
  have r: "rmtree ex_world ''/tmp/musetalk_a1b2'' = None" by (simp add: ex_world_def)
  from workspace_release [OF ex_job_fields m, of "\<lambda>d. Some (PyExc OtherException ''busy'')"] r
  show ?thesis using ex_job_fields m by simp
qed

text \<open>
  C2 as stated fails: when the removal of the workspace raises, the fault is swallowed and
  the workspace is still there when the handler returns.
\<close>

theorem workspace_left_counterexample:
  "job_fields ex_job = Some (PStr ''http://h/a.png'', PStr ''http://h/a.wav'', PStr ''j1'') \<and>
   mkdtemp (ex_world\<lparr>rmtree := (\<lambda>d. Some (PyExc OtherException ''busy''))\<rparr>) = Inr ''/tmp/musetalk_a1b2'' \<and>
   leftover (handler (ex_world\<lparr>rmtree := (\<lambda>d. Some (PyExc OtherException ''busy''))\<rparr>) ex_job) =
     [''/tmp/musetalk_a1b2'']"
proof -
  have m: "mkdtemp (ex_world\<lparr>rmtree := (\<lambda>d. Some (PyExc OtherException ''busy''))\<rparr>) = Inr ''/tmp/musetalk_a1b2''"
    by (simp add: ex_world_def)
  show ?thesis
    using ex_job_fields m by (simp add: handler_valid [OF ex_job_fields m] finally_cleanup_def)
qed

section \<open>Missing models and fetch timeout\<close>

lemma generate_models_missing:
  "\<not> path_exists w MODEL_DIR \<Longrightarrow>
   generate_video_musetalk w img aud out =
     (Inl ''MuseTalk models not found - run model download first'', [PathExists MODEL_DIR])"
  by (simp add: generate_video_musetalk_def)

text \<open>
  C4. For a job that reaches the synthesis stage (validation passed, workspace acquired,
  both downloads completed) with the model asset directory absent, the synthesis stage
  fails at its first check, the handler spawns no subprocess, and the job result is
  exactly the error \<^verbatim>\<open>MuseTalk models not found - run model download first\<close>.
\<close>

theorem models_missing:
  assumes "job_fields job = Some (image_url, audio_url, job_id)"
    and "mkdtemp w = Inr temp_dir"
    and "requests_get w image_url (path_join temp_dir ''input.png'') = None"
    and "requests_get w audio_url (path_join temp_dir ''input.wav'') = None"
    and "\<not> path_exists w MODEL_DIR"
  shows "generate_video_musetalk w img aud out =
           (Inl ''MuseTalk models not found - run model download first'', [PathExists MODEL_DIR]) \<and>
         ret (handler w job) =
           Inr (error_result ''MuseTalk models not found - run model download first'') \<and>
         filter is_spawn (calls (handler w job)) = []"
proof -
  let ?img = "path_join temp_dir ''input.png''"
  let ?aud = "path_join temp_dir ''input.wav''"
  have p: "pipeline w image_url audio_url job_id temp_dir =
             (error_result ''MuseTalk models not found - run model download first'',
              [ReqGet image_url ?img 60] @ [ReqGet audio_url ?aud 60] @ [PathExists MODEL_DIR])"
    by (rule pipeline_synthesis_error
          [OF download_file_ok [OF assms(3)] download_file_ok [OF assms(4)]
              generate_models_missing [OF assms(5)]])
  have h: "handler w job =
             finally_cleanup w temp_dir
               (Inr (error_result ''MuseTalk models not found - run model download first''),
                [ReqGet image_url ?img 60] @ [ReqGet audio_url ?aud 60] @ [PathExists MODEL_DIR])"
    using handler_valid [OF assms(1,2)] p by simp
  show ?thesis
    using generate_models_missing [OF assms(5)] h
    by (simp add: finally_cleanup_def is_spawn_def)
qed

theorem models_missing_witness:
  "\<not> path_exists (ex_world\<lparr>path_exists := (\<lambda>p. False)\<rparr>) MODEL_DIR \<and>
   ret (handler (ex_world\<lparr>path_exists := (\<lambda>p. False)\<rparr>) ex_job) =
     Inr (error_result ''MuseTalk models not found - run model download first'') \<and>
   filter is_spawn (calls (handler (ex_world\<lparr>path_exists := (\<lambda>p. False)\<rparr>) ex_job)) = []"
proof -
  let ?w = "ex_world\<lparr>path_exists := (\<lambda>p. False)\<rparr>"
  have m: "mkdtemp ?w = Inr ''/tmp/musetalk_a1b2''" by (simp add: ex_world_def)
  have r1: "requests_get ?w (PStr ''http://h/a.png'') (path_join ''/tmp/musetalk_a1b2'' ''input.png'') = None"
    by (simp add: ex_world_def)
  have r2: "requests_get ?w (PStr ''http://h/a.wav'') (path_join ''/tmp/musetalk_a1b2'' ''input.wav'') = None"
    by (simp add: ex_world_def)
  have e: "\<not> path_exists ?w MODEL_DIR" by simp
  from models_missing [OF ex_job_fields m r1 r2 e] e show ?thesis by simp
qed



section \<open>Publisher credentials\<close>

lemma upload_no_credentials:
  assumes "\<not> primary_resolves w" and "\<not> fallback_resolves w"
  shows "upload_to_s3 w f b k =
           (case import_boto3 w of
              None \<Rightarrow> (Inl ''S3 credentials not configured'', [Import ''boto3''])
            | Some e \<Rightarrow> (Inl (''S3 upload failed: '' @ exc_str e), [Import ''boto3'']))"
  using assms
  by (auto simp: upload_to_s3_def primary_resolves_def fallback_resolves_def Let_def
      split: option.splits)

lemma upload_primary:
  assumes "import_boto3 w = None"
    and "environ w ''BUCKET_ACCESS_KEY_ID'' = Some ak" and "ak \<noteq> []"
    and "environ w ''BUCKET_SECRET_ACCESS_KEY'' = Some sk" and "sk \<noteq> []"
  shows "take 2 (snd (upload_to_s3 w f b k)) =
           [Import ''boto3'',
            Boto3Client (getenv_default w ''BUCKET_ENDPOINT_URL'' ''https://storage.runpod.io'') ak sk]"
  using assms
  by (simp add: upload_to_s3_def is_set_def Let_def split: option.splits)

lemma upload_fallback:
  assumes "import_boto3 w = None" and "\<not> primary_resolves w"
    and "environ w ''RUNPOD_S3_ACCESS_KEY'' = Some ak" and "ak \<noteq> []"
    and "environ w ''RUNPOD_S3_SECRET_KEY'' = Some sk" and "sk \<noteq> []"
  shows "take 2 (snd (upload_to_s3 w f b k)) =
           [Import ''boto3'',
            Boto3Client
              (getenv_default w ''RUNPOD_S3_ENDPOINT''
                 (getenv_default w ''BUCKET_ENDPOINT_URL'' ''https://storage.runpod.io''))
              ak sk]"
  using assms
  by (auto simp: upload_to_s3_def primary_resolves_def is_set_def Let_def split: option.splits)

text \<open>
  C6 (as amended). When neither credential pair resolves, \<^verbatim>\<open>upload_to_s3\<close> attempts no
  network call, and, when the storage client library loads, it returns the error
  \<^verbatim>\<open>S3 credentials not configured\<close>. Credentials are resolved in priority order: the
  client is built with the primary pair when both of its variables are set, and with
  the fallback pair (and the fallback endpoint) only when the primary pair is not.
\<close>

theorem credentials_resolution:
  "(\<not> primary_resolves w \<and> \<not> fallback_resolves w \<longrightarrow>
      filter is_network (snd (upload_to_s3 w f b k)) = [] \<and>
      (import_boto3 w = None \<longrightarrow>
         upload_to_s3 w f b k = (Inl ''S3 credentials not configured'', [Import ''boto3'']))) \<and>
   (import_boto3 w = None \<and>
    environ w ''BUCKET_ACCESS_KEY_ID'' = Some ak \<and> ak \<noteq> [] \<and>
    environ w ''BUCKET_SECRET_ACCESS_KEY'' = Some sk \<and> sk \<noteq> [] \<longrightarrow>
      take 2 (snd (upload_to_s3 w f b k)) =
        [Import ''boto3'',
         Boto3Client (getenv_default w ''BUCKET_ENDPOINT_URL'' ''https://storage.runpod.io'') ak sk]) \<and>
   (import_boto3 w = None \<and> \<not> primary_resolves w \<and>
    environ w ''RUNPOD_S3_ACCESS_KEY'' = Some fak \<and> fak \<noteq> [] \<and>
    environ w ''RUNPOD_S3_SECRET_KEY'' = Some fsk \<and> fsk \<noteq> [] \<longrightarrow>
      take 2 (snd (upload_to_s3 w f b k)) =
        [Import ''boto3'',
         Boto3Client
           (getenv_default w ''RUNPOD_S3_ENDPOINT''
              (getenv_default w ''BUCKET_ENDPOINT_URL'' ''https://storage.runpod.io''))
           fak fsk])"
proof (intro conjI impI)
  assume a: "\<not> primary_resolves w \<and> \<not> fallback_resolves w"
  then show "filter is_network (snd (upload_to_s3 w f b k)) = []"
    by (simp add: upload_no_credentials is_network_def split: option.splits)
  assume "import_boto3 w = None"
  with a show "upload_to_s3 w f b k = (Inl ''S3 credentials not configured'', [Import ''boto3''])"
    by (simp add: upload_no_credentials)
next
  assume "import_boto3 w = None \<and>
    environ w ''BUCKET_ACCESS_KEY_ID'' = Some ak \<and> ak \<noteq> [] \<and>
    environ w ''BUCKET_SECRET_ACCESS_KEY'' = Some sk \<and> sk \<noteq> []"
  then show "take 2 (snd (upload_to_s3 w f b k)) =
        [Import ''boto3'',
         Boto3Client (getenv_default w ''BUCKET_ENDPOINT_URL'' ''https://storage.runpod.io'') ak sk]"
    using upload_primary by blast
next
  assume "import_boto3 w = None \<and> \<not> primary_resolves w \<and>
    environ w ''RUNPOD_S3_ACCESS_KEY'' = Some fak \<and> fak \<noteq> [] \<and>
    environ w ''RUNPOD_S3_SECRET_KEY'' = Some fsk \<and> fsk \<noteq> []"
  then show "take 2 (snd (upload_to_s3 w f b k)) =
        [Import ''boto3'',
         Boto3Client
           (getenv_default w ''RUNPOD_S3_ENDPOINT''
              (getenv_default w ''BUCKET_ENDPOINT_URL'' ''https://storage.runpod.io''))
           fak fsk]"
    using upload_fallback by blast
qed

theorem credentials_resolution_witness:
  "upload_to_s3 (ex_world\<lparr>environ := (\<lambda>n. None)\<rparr>) ''/tmp/musetalk_a1b2/output.mp4''
      ''flowsmartly-avatars'' ''musetalk/j1.mp4'' =
     (Inl ''S3 credentials not configured'', [Import ''boto3'']) \<and>
   take 2 (snd (upload_to_s3 ex_world ''/tmp/musetalk_a1b2/output.mp4''
      ''flowsmartly-avatars'' ''musetalk/j1.mp4'')) =
     [Import ''boto3'', Boto3Client ''https://storage.runpod.io'' ''AK1'' ''SK1''] \<and>
   take 2 (snd (upload_to_s3
      (ex_world\<lparr>environ := map_of [(''RUNPOD_S3_ACCESS_KEY'', ''AK2''), (''RUNPOD_S3_SECRET_KEY'', ''SK2''),
                                   (''BUCKET_ACCESS_KEY_ID'', ''AK1'')]\<rparr>)
      ''/tmp/musetalk_a1b2/output.mp4'' ''flowsmartly-avatars'' ''musetalk/j1.mp4'')) =
     [Import ''boto3'', Boto3Client ''https://storage.runpod.io'' ''AK2'' ''SK2'']"
  using credentials_resolution [of "ex_world\<lparr>environ := (\<lambda>n. None)\<rparr>" "''/tmp/musetalk_a1b2/output.mp4''"
          "''flowsmartly-avatars''" "''musetalk/j1.mp4''" "''AK1''" "''SK1''" "''AK2''" "''SK2''"]
        credentials_resolution [of ex_world "''/tmp/musetalk_a1b2/output.mp4''"
          "''flowsmartly-avatars''" "''musetalk/j1.mp4''" "''AK1''" "''SK1''" "''AK2''" "''SK2''"]
        credentials_resolution [of "ex_world\<lparr>environ := map_of [(''RUNPOD_S3_ACCESS_KEY'', ''AK2''), (''RUNPOD_S3_SECRET_KEY'', ''SK2''),
                                   (''BUCKET_ACCESS_KEY_ID'', ''AK1'')]\<rparr>" "''/tmp/musetalk_a1b2/output.mp4''"
          "''flowsmartly-avatars''" "''musetalk/j1.mp4''" "''AK1''" "''SK1''" "''AK2''" "''SK2''"]
  by (simp add: ex_world_def primary_resolves_def fallback_resolves_def is_set_def getenv_default_def)

text \<open>
  C6 as stated fails: the import of the storage client library stands inside the
  \<^verbatim>\<open>try\<close>, before the credentials are read, so when it fails with no pair resolved
  the error returned is the upload failure, not the missing credentials.
\<close>

theorem credentials_import_counterexample:
  "\<not> primary_resolves (ex_world\<lparr>environ := (\<lambda>n. None),
        import_boto3 := Some (PyExc ImportError ''No module named boto3'')\<rparr>) \<and>
   \<not> fallback_resolves (ex_world\<lparr>environ := (\<lambda>n. None),
        import_boto3 := Some (PyExc ImportError ''No module named boto3'')\<rparr>) \<and>
   upload_to_s3 (ex_world\<lparr>environ := (\<lambda>n. None),
        import_boto3 := Some (PyExc ImportError ''No module named boto3'')\<rparr>)
      ''/tmp/musetalk_a1b2/output.mp4'' ''flowsmartly-avatars'' ''musetalk/j1.mp4'' =
     (Inl ''S3 upload failed: No module named boto3'', [Import ''boto3''])"
  by (simp add: upload_to_s3_def primary_resolves_def fallback_resolves_def is_set_def)

section \<open>Strategy selection and the fallback\<close>

lemma download_file_Inr: "download_file w u p = (Inr x, t) \<Longrightarrow> x = p"
  by (auto simp: download_file_def split: option.splits)

lemma primary_Inr: "primary_strategy w img aud out = (Inr v, t) \<Longrightarrow> v = out"
  by (auto simp: primary_strategy_def Let_def split: sum.splits prod.splits if_splits list.splits option.splits)

lemma fallback_Inr: "fallback_strategy w img aud out = (Inr v, t) \<Longrightarrow> v = out"
  by (auto simp: fallback_strategy_def Let_def split: sum.splits prod.splits if_splits)

lemma generate_Inr: "generate_video_musetalk w img aud out = (Inr v, t) \<Longrightarrow> v = out"
  by (auto simp: generate_video_musetalk_def split: option.splits if_splits prod.splits
      dest: primary_Inr fallback_Inr)

lemma generate_fallback:
  "path_exists w MODEL_DIR \<Longrightarrow> import_torch w = None \<Longrightarrow> \<not> path_exists w inference_script \<Longrightarrow>
   generate_video_musetalk w img aud out =
     (fst (fallback_strategy w img aud out),
      [PathExists MODEL_DIR, Import ''torch'', PathExists inference_script]
      @ snd (fallback_strategy w img aud out))"
  by (simp add: generate_video_musetalk_def split: prod.splits)

lemma generate_primary:
  "path_exists w MODEL_DIR \<Longrightarrow> import_torch w = None \<Longrightarrow> path_exists w inference_script \<Longrightarrow>
   generate_video_musetalk w img aud out =
     (fst (primary_strategy w img aud out),
      [PathExists MODEL_DIR, Import ''torch'', PathExists inference_script]
      @ snd (primary_strategy w img aud out))"
  by (simp add: generate_video_musetalk_def split: prod.splits)

lemma fallback_trace:
  "snd (fallback_strategy w img aud out) = [SubprocessRun (ffmpeg_cmd img aud out) 60]"
  by (simp add: fallback_strategy_def Let_def split: sum.splits prod.splits)

lemma fallback_ok:
  "run_ffmpeg w (ffmpeg_cmd img aud out) = Inr (0, s) \<Longrightarrow>
   fallback_strategy w img aud out = (Inr out, [SubprocessRun (ffmpeg_cmd img aud out) 60])"
  by (simp add: fallback_strategy_def)

lemma primary_spawn:
  "SubprocessRun cmd t \<in> set (snd (primary_strategy w img aud out)) \<Longrightarrow>
   cmd = inference_cmd img aud out \<and> t = 300"
  by (auto simp: primary_strategy_def Let_def split: sum.splits prod.splits if_splits list.splits option.splits)

lemma generate_spawn_primary:
  assumes "path_exists w inference_script"
    and "SubprocessRun cmd t \<in> set (snd (generate_video_musetalk w img aud out))"
  shows "cmd = inference_cmd img aud out \<and> t = 300"
proof (cases "path_exists w MODEL_DIR \<and> import_torch w = None")
  case True
  with assms generate_primary [of w img aud out] primary_spawn [of cmd t w img aud out]
  show ?thesis by auto
next
  case False
  with assms(2) show ?thesis
    by (auto simp: generate_video_musetalk_def split: option.splits if_splits)
qed

lemma upload_url_form:
  "upload_to_s3 w f b k = (Inr url, t) \<Longrightarrow> \<exists>endpoint. url = endpoint @ ''/'' @ b @ ''/'' @ k"
  by (auto simp: upload_to_s3_def Let_def split: option.splits if_splits)

lemma pipeline_events:
  assumes "ev \<in> set (snd (pipeline w iu au jid d))"
  shows "ev \<in> set (snd (download_file w iu (path_join d ''input.png''))) \<or>
         ev \<in> set (snd (download_file w au (path_join d ''input.wav''))) \<or>
         ev \<in> set (snd (generate_video_musetalk w (path_join d ''input.png'')
                          (path_join d ''input.wav'') (path_join d ''output.mp4''))) \<or>
         ev \<in> set (snd (upload_to_s3 w (path_join d ''output.mp4'')
                          (getenv_default w ''RUNPOD_S3_BUCKET'' ''flowsmartly-avatars'')
                          (''musetalk/'' @ format_val w jid @ ''.mp4'')))"
proof -
  obtain r1 t1 where s1: "download_file w iu (path_join d ''input.png'') = (r1, t1)"
    by (cases "download_file w iu (path_join d ''input.png'')")
  obtain r2 t2 where s2: "download_file w au (path_join d ''input.wav'') = (r2, t2)"
    by (cases "download_file w au (path_join d ''input.wav'')")
  show ?thesis
  proof (cases r1)
    case (Inl err)
    with s1 assms show ?thesis by (auto simp: pipeline_image_error)
  next
    case p1: (Inr p1)
    have e1: "p1 = path_join d ''input.png''" using s1 p1 download_file_Inr by blast
    show ?thesis
    proof (cases r2)
      case (Inl err)
      with s1 s2 p1 assms show ?thesis by (auto simp: pipeline_audio_error)
    next
      case p2: (Inr p2)
      have e2: "p2 = path_join d ''input.wav''" using s2 p2 download_file_Inr by blast
      obtain r3 t3 where
        s3: "generate_video_musetalk w p1 p2 (path_join d ''output.mp4'') = (r3, t3)"
        by (cases "generate_video_musetalk w p1 p2 (path_join d ''output.mp4'')")
      show ?thesis
      proof (cases r3)
        case (Inl err)
        with s1 s2 s3 p1 p2 assms have "ev \<in> set t1 \<or> ev \<in> set t2 \<or> ev \<in> set t3"
          by (simp add: pipeline_synthesis_error)
        with s1 s2 s3 e1 e2 show ?thesis by auto
      next
        case v: (Inr v)
        have e3: "v = path_join d ''output.mp4''" using s3 v generate_Inr by blast
        obtain r4 t4 where
          s4: "upload_to_s3 w v (getenv_default w ''RUNPOD_S3_BUCKET'' ''flowsmartly-avatars'')
                 (''musetalk/'' @ format_val w jid @ ''.mp4'') = (r4, t4)"
          by (cases "upload_to_s3 w v (getenv_default w ''RUNPOD_S3_BUCKET'' ''flowsmartly-avatars'')
                 (''musetalk/'' @ format_val w jid @ ''.mp4'')")
        have "snd (pipeline w iu au jid d) = t1 @ t2 @ t3 @ t4"
        proof (cases r4)
          case (Inl err)
          with s1 s2 s3 s4 p1 p2 v show ?thesis by (simp add: pipeline_publish_error)
        next
          case (Inr url)
          with s1 s2 s3 s4 p1 p2 v show ?thesis by (simp add: pipeline_success)
        qed
        with assms have "ev \<in> set t1 \<or> ev \<in> set t2 \<or> ev \<in> set t3 \<or> ev \<in> set t4"
          by simp
        moreover have "t1 = snd (download_file w iu (path_join d ''input.png''))" using s1 by simp
        moreover have "t2 = snd (download_file w au (path_join d ''input.wav''))" using s2 by simp
        moreover have "t3 = snd (generate_video_musetalk w (path_join d ''input.png'')
                          (path_join d ''input.wav'') (path_join d ''output.mp4''))"
          using s3 e1 e2 by simp
        moreover have "t4 = snd (upload_to_s3 w (path_join d ''output.mp4'')
                          (getenv_default w ''RUNPOD_S3_BUCKET'' ''flowsmartly-avatars'')
                          (''musetalk/'' @ format_val w jid @ ''.mp4''))"
          using s4 e3 by simp
        ultimately show ?thesis by blast
      qed
    qed
  qed
qed

lemma handler_calls_cases:
  "calls (handler w job) = [] \<or> calls (handler w job) = [Mkdtemp ''musetalk_''] \<or>
   (\<exists>iu au jid d. job_fields job = Some (iu, au, jid) \<and> mkdtemp w = Inr d \<and>
      calls (handler w job) = Mkdtemp ''musetalk_'' # snd (pipeline w iu au jid d) @ [Rmtree d])"
proof (cases "job_fields job")
  case None
  then show ?thesis using handler_try_invalid [of job w] by (simp add: handler_calls)
next
  case (Some x)
  obtain iu au jid where x: "x = (iu, au, jid)" by (cases x)
  show ?thesis
  proof (cases "mkdtemp w")
    case (Inl e)
    from job_fields_SomeD [OF Some [unfolded x]] Inl
    have "calls (handler_try w job) = [Mkdtemp ''musetalk_'']"
      by (auto simp: handler_try_def)
    then show ?thesis by (simp add: handler_calls)
  next
    case (Inr d)
    from handler_valid [OF Some [unfolded x] Inr]
    have "calls (handler w job) = Mkdtemp ''musetalk_'' # snd (pipeline w iu au jid d) @ [Rmtree d]"
      by (simp add: finally_cleanup_def)
    with Some x Inr show ?thesis by blast
  qed
qed

lemma spawn_not_download: "SubprocessRun cmd t \<notin> set (snd (download_file w u p))"
  by (simp add: download_file_trace)

lemma spawn_not_upload: "SubprocessRun cmd t \<notin> set (snd (upload_to_s3 w f b k))"
  by (simp add: upload_to_s3_def Let_def split: option.splits)

lemma handler_spawn_primary:
  assumes "path_exists w inference_script"
    and "SubprocessRun cmd t \<in> set (calls (handler w job))"
  shows "\<exists>img aud out. cmd = inference_cmd img aud out \<and> t = 300"
proof -
  from handler_calls_cases [of w job] assms(2) obtain iu au jid d where
    "SubprocessRun cmd t \<in> set (snd (pipeline w iu au jid d))"
    by auto
  from pipeline_events [OF this] spawn_not_download spawn_not_upload
  have "SubprocessRun cmd t \<in> set (snd (generate_video_musetalk w (path_join d ''input.png'')
                          (path_join d ''input.wav'') (path_join d ''output.mp4'')))"
    by blast
  from generate_spawn_primary [OF assms(1) this] show ?thesis by blast
qed

text \<open>
  C7 (as amended). For a job that reaches the synthesis stage with the models and the
  synthesis library in place and the inference entry point absent, whose fallback
  transcoding exits with status 0 and whose publish stage then succeeds with address
  \<open>video_url\<close>, the job result is the success dictionary with that address, which is
  endpoint, bucket and object key joined by slashes. And whenever the inference entry
  point is present, every subprocess the handler spawns is the inference command with
  the 300 second bound: the fallback transcoder is never run.
\<close>

theorem fallback_selection:
  "(job_fields job = Some (image_url, audio_url, job_id) \<and> mkdtemp w = Inr temp_dir \<and>
    requests_get w image_url (path_join temp_dir ''input.png'') = None \<and>
    requests_get w audio_url (path_join temp_dir ''input.wav'') = None \<and>
    path_exists w MODEL_DIR \<and> import_torch w = None \<and> \<not> path_exists w inference_script \<and>
    run_ffmpeg w (ffmpeg_cmd (path_join temp_dir ''input.png'') (path_join temp_dir ''input.wav'')
                    (path_join temp_dir ''output.mp4'')) = Inr (0, s) \<and>
    upload_to_s3 w (path_join temp_dir ''output.mp4'')
      (getenv_default w ''RUNPOD_S3_BUCKET'' ''flowsmartly-avatars'')
      (''musetalk/'' @ format_val w job_id @ ''.mp4'') = (Inr video_url, t4)
    \<longrightarrow> ret (handler w job) = Inr (success_result video_url job_id) \<and>
        (\<exists>endpoint. video_url =
           endpoint @ ''/'' @ getenv_default w ''RUNPOD_S3_BUCKET'' ''flowsmartly-avatars''
             @ ''/'' @ ''musetalk/'' @ format_val w job_id @ ''.mp4'')) \<and>
   (path_exists w inference_script \<longrightarrow>
      (\<forall>cmd t. SubprocessRun cmd t \<in> set (calls (handler w job)) \<longrightarrow>
         (\<exists>img aud out. cmd = inference_cmd img aud out \<and> t = 300)))"
proof (intro conjI impI allI)
  let ?img = "path_join temp_dir ''input.png''"
  let ?aud = "path_join temp_dir ''input.wav''"
  let ?out = "path_join temp_dir ''output.mp4''"
  assume a: "job_fields job = Some (image_url, audio_url, job_id) \<and> mkdtemp w = Inr temp_dir \<and>
    requests_get w image_url ?img = None \<and> requests_get w audio_url ?aud = None \<and>
    path_exists w MODEL_DIR \<and> import_torch w = None \<and> \<not> path_exists w inference_script \<and>
    run_ffmpeg w (ffmpeg_cmd ?img ?aud ?out) = Inr (0, s) \<and>
    upload_to_s3 w ?out (getenv_default w ''RUNPOD_S3_BUCKET'' ''flowsmartly-avatars'')
      (''musetalk/'' @ format_val w job_id @ ''.mp4'') = (Inr video_url, t4)"
  have d1: "download_file w image_url ?img = (Inr ?img, [ReqGet image_url ?img 60])"
    using a by (simp add: download_file_ok)
  have d2: "download_file w audio_url ?aud = (Inr ?aud, [ReqGet audio_url ?aud 60])"
    using a by (simp add: download_file_ok)
  have g: "generate_video_musetalk w ?img ?aud ?out =
             (Inr ?out, [PathExists MODEL_DIR, Import ''torch'', PathExists inference_script]
                        @ [SubprocessRun (ffmpeg_cmd ?img ?aud ?out) 60])"
    using a generate_fallback [of w ?img ?aud ?out] fallback_ok [of w ?img ?aud ?out s]
    by simp
  have u: "upload_to_s3 w ?out (getenv_default w ''RUNPOD_S3_BUCKET'' ''flowsmartly-avatars'')
      (''musetalk/'' @ format_val w job_id @ ''.mp4'') = (Inr video_url, t4)"
    using a by simp
  have p: "fst (pipeline w image_url audio_url job_id temp_dir) = success_result video_url job_id"
    using pipeline_success [OF d1 d2 g u] by simp
  have jf: "job_fields job = Some (image_url, audio_url, job_id)" and m: "mkdtemp w = Inr temp_dir"
    using a by simp_all
  show "ret (handler w job) = Inr (success_result video_url job_id)"
    using handler_valid [OF jf m] p by (simp add: finally_cleanup_def)
  show "\<exists>endpoint. video_url =
           endpoint @ ''/'' @ getenv_default w ''RUNPOD_S3_BUCKET'' ''flowsmartly-avatars''
             @ ''/'' @ ''musetalk/'' @ format_val w job_id @ ''.mp4''"
    using upload_url_form [OF u] by simp
next
  fix cmd t
  assume "path_exists w inference_script" and "SubprocessRun cmd t \<in> set (calls (handler w job))"
  then show "\<exists>img aud out. cmd = inference_cmd img aud out \<and> t = 300"
    by (rule handler_spawn_primary)
qed

theorem fallback_selection_witness:
  "ret (handler (ex_world\<lparr>path_exists := (\<lambda>p. p = MODEL_DIR)\<rparr>) ex_job) =
     Inr (success_result ''https://storage.runpod.io/flowsmartly-avatars/musetalk/j1.mp4'' (PStr ''j1'')) \<and>
   path_exists ex_world inference_script \<and>
   list_all (\<lambda>ev. \<not> is_spawn ev \<or> ev = SubprocessRun
       (inference_cmd ''/tmp/musetalk_a1b2/input.png'' ''/tmp/musetalk_a1b2/input.wav''
          ''/tmp/musetalk_a1b2/output.mp4'') 300)
     (calls (handler ex_world ex_job))"
proof -
  let ?w = "ex_world\<lparr>path_exists := (\<lambda>p. p = MODEL_DIR)\<rparr>"
  have jf: "job_fields ex_job = Some (PStr ''http://h/a.png'', PStr ''http://h/a.wav'', PStr ''j1'')"
    by (rule ex_job_fields)
  have m: "mkdtemp ?w = Inr ''/tmp/musetalk_a1b2''" by (simp add: ex_world_def)
  have r1: "requests_get ?w (PStr ''http://h/a.png'') (path_join ''/tmp/musetalk_a1b2'' ''input.png'') = None"
    by (simp add: ex_world_def)
  have r2: "requests_get ?w (PStr ''http://h/a.wav'') (path_join ''/tmp/musetalk_a1b2'' ''input.wav'') = None"
    by (simp add: ex_world_def)
  have e1: "path_exists ?w MODEL_DIR" by simp
  have e2: "import_torch ?w = None" by (simp add: ex_world_def)
  have e3: "\<not> path_exists ?w inference_script"
    by (simp add: inference_script_def MODEL_DIR_def WORKSPACE_def path_join_def)
  have f: "run_ffmpeg ?w (ffmpeg_cmd (path_join ''/tmp/musetalk_a1b2'' ''input.png'')
              (path_join ''/tmp/musetalk_a1b2'' ''input.wav'')
              (path_join ''/tmp/musetalk_a1b2'' ''output.mp4'')) = Inr (0, Inr [])"
    by (simp add: ex_world_def)
  have u: "upload_to_s3 ?w (path_join ''/tmp/musetalk_a1b2'' ''output.mp4'')
      (getenv_default ?w ''RUNPOD_S3_BUCKET'' ''flowsmartly-avatars'')
      (''musetalk/'' @ format_val ?w (PStr ''j1'') @ ''.mp4'') =
        (Inr ''https://storage.runpod.io/flowsmartly-avatars/musetalk/j1.mp4'',
         [Import ''boto3'', Boto3Client ''https://storage.runpod.io'' ''AK1'' ''SK1'',
          UploadFile ''/tmp/musetalk_a1b2/output.mp4'' ''flowsmartly-avatars'' ''musetalk/j1.mp4''])"
    by (simp add: upload_to_s3_def ex_world_def getenv_default_def is_set_def format_val_def
        path_join_def Let_def)
  have a: "ret (handler ?w ex_job) =
     Inr (success_result ''https://storage.runpod.io/flowsmartly-avatars/musetalk/j1.mp4'' (PStr ''j1''))"
    using fallback_selection [of ex_job "PStr ''http://h/a.png''" "PStr ''http://h/a.wav''" "PStr ''j1''"
        ?w "''/tmp/musetalk_a1b2''" "Inr []"
        "''https://storage.runpod.io/flowsmartly-avatars/musetalk/j1.mp4''"
        "[Import ''boto3'', Boto3Client ''https://storage.runpod.io'' ''AK1'' ''SK1'',
          UploadFile ''/tmp/musetalk_a1b2/output.mp4'' ''flowsmartly-avatars'' ''musetalk/j1.mp4'']"]
      jf m r1 r2 e1 e2 e3 f u
    by blast
  have b: "path_exists ex_world inference_script" by (simp add: ex_world_def)
  have c: "list_all (\<lambda>ev. \<not> is_spawn ev \<or> ev = SubprocessRun
       (inference_cmd ''/tmp/musetalk_a1b2/input.png'' ''/tmp/musetalk_a1b2/input.wav''
          ''/tmp/musetalk_a1b2/output.mp4'') 300)
     (calls (handler ex_world ex_job))"
    by code_simp
  from a b c show ?thesis by blast
qed

text \<open>
  C7 as stated fails: the fallback transcoding succeeds, and the job result is an error,
  because the publish stage that follows finds no credentials.
\<close>

theorem fallback_publish_counterexample:
  "\<not> path_exists (ex_world\<lparr>path_exists := (\<lambda>p. p = MODEL_DIR), environ := (\<lambda>n. None)\<rparr>)
       inference_script \<and>
   fst (generate_video_musetalk (ex_world\<lparr>path_exists := (\<lambda>p. p = MODEL_DIR), environ := (\<lambda>n. None)\<rparr>)
          ''/tmp/musetalk_a1b2/input.png'' ''/tmp/musetalk_a1b2/input.wav''
          ''/tmp/musetalk_a1b2/output.mp4'') = Inr ''/tmp/musetalk_a1b2/output.mp4'' \<and>
   ret (handler (ex_world\<lparr>path_exists := (\<lambda>p. p = MODEL_DIR), environ := (\<lambda>n. None)\<rparr>) ex_job) =
     Inr (error_result ''S3 credentials not configured'')"
  by code_simp

lemma fallback_nonzero:
  "run_ffmpeg w (ffmpeg_cmd img aud out) = Inr (rc, Inr s) \<Longrightarrow> rc \<noteq> 0 \<Longrightarrow>
   fst (fallback_strategy w img aud out) = Inl (''FFmpeg test video failed: '' @ s)"
  by (simp add: fallback_strategy_def)

lemma fallback_raise:
  "run_ffmpeg w (ffmpeg_cmd img aud out) = Inl e \<Longrightarrow>
   fst (fallback_strategy w img aud out) = Inl (synthesis_except e)"
  by (simp add: fallback_strategy_def)

lemma fallback_success_iff:
  "(\<exists>p. fst (fallback_strategy w img aud out) = Inr p) =
   (\<exists>s. run_ffmpeg w (ffmpeg_cmd img aud out) = Inr (0, s))"
  by (auto simp: fallback_strategy_def Let_def split: sum.splits prod.splits if_splits)

text \<open>
  C8 (as amended). For a job taking the fallback strategy, the transcoder is the one
  subprocess spawned and it is spawned with the 60 second bound; the stage succeeds
  exactly when the transcoder exits with status 0, so every failure of the step is an
  error outcome of the stage; an exit status other than 0 whose diagnostics decode is
  reported as FallbackFailed (\<^verbatim>\<open>FFmpeg test video failed: <diagnostics>\<close>); and a fault
  raised by the invocation, other than the timeout and an import fault, is reported as
  \<^verbatim>\<open>Video generation error: <detail>\<close>.
\<close>

theorem fallback_failures:
  assumes "path_exists w MODEL_DIR" and "import_torch w = None"
    and "\<not> path_exists w inference_script"
  shows "filter is_spawn (snd (generate_video_musetalk w img aud out)) =
           [SubprocessRun (ffmpeg_cmd img aud out) 60] \<and>
         ((\<exists>p. fst (generate_video_musetalk w img aud out) = Inr p) =
          (\<exists>s. run_ffmpeg w (ffmpeg_cmd img aud out) = Inr (0, s))) \<and>
         (\<forall>rc s. run_ffmpeg w (ffmpeg_cmd img aud out) = Inr (rc, Inr s) \<and> rc \<noteq> 0 \<longrightarrow>
            fst (generate_video_musetalk w img aud out) = Inl (''FFmpeg test video failed: '' @ s) \<and>
            is_fallback_failed (''FFmpeg test video failed: '' @ s)) \<and>
         (\<forall>e. run_ffmpeg w (ffmpeg_cmd img aud out) = Inl e \<and>
              exc_cls e \<noteq> TimeoutExpired \<and> exc_cls e \<noteq> ImportError \<longrightarrow>
            fst (generate_video_musetalk w img aud out) =
              Inl (''Video generation error: '' @ exc_str e))"
proof -
  have g: "generate_video_musetalk w img aud out =
     (fst (fallback_strategy w img aud out),
      [PathExists MODEL_DIR, Import ''torch'', PathExists inference_script]
      @ snd (fallback_strategy w img aud out))"
    by (rule generate_fallback [OF assms])
  have c1: "filter is_spawn (snd (generate_video_musetalk w img aud out)) =
           [SubprocessRun (ffmpeg_cmd img aud out) 60]"
    by (simp add: g fallback_trace is_spawn_def)
  have c2: "(\<exists>p. fst (generate_video_musetalk w img aud out) = Inr p) =
          (\<exists>s. run_ffmpeg w (ffmpeg_cmd img aud out) = Inr (0, s))"
    using fallback_success_iff [of w img aud out] by (simp add: g)
  have c3: "\<forall>rc s. run_ffmpeg w (ffmpeg_cmd img aud out) = Inr (rc, Inr s) \<and> rc \<noteq> 0 \<longrightarrow>
            fst (generate_video_musetalk w img aud out) = Inl (''FFmpeg test video failed: '' @ s) \<and>
            is_fallback_failed (''FFmpeg test video failed: '' @ s)"
    using fallback_nonzero [of w img aud out] by (auto simp: g is_fallback_failed_def)
  have c4: "\<forall>e. run_ffmpeg w (ffmpeg_cmd img aud out) = Inl e \<and>
              exc_cls e \<noteq> TimeoutExpired \<and> exc_cls e \<noteq> ImportError \<longrightarrow>
            fst (generate_video_musetalk w img aud out) =
              Inl (''Video generation error: '' @ exc_str e)"
    using fallback_raise [of w img aud out] by (auto simp: g synthesis_except_def)
  from c1 c2 c3 c4 show ?thesis by blast
qed

theorem fallback_failures_witness:
  "path_exists (ex_world\<lparr>path_exists := (\<lambda>p. p = MODEL_DIR),
      run_ffmpeg := (\<lambda>c. Inr (1, Inr ''no such file''))\<rparr>) MODEL_DIR \<and>
   \<not> path_exists (ex_world\<lparr>path_exists := (\<lambda>p. p = MODEL_DIR),
      run_ffmpeg := (\<lambda>c. Inr (1, Inr ''no such file''))\<rparr>) inference_script \<and>
   fst (generate_video_musetalk (ex_world\<lparr>path_exists := (\<lambda>p. p = MODEL_DIR),
      run_ffmpeg := (\<lambda>c. Inr (1, Inr ''no such file''))\<rparr>) ''a.png'' ''a.wav'' ''o.mp4'') =
     Inl ''FFmpeg test video failed: no such file'' \<and>
   filter is_spawn (snd (generate_video_musetalk (ex_world\<lparr>path_exists := (\<lambda>p. p = MODEL_DIR),
      run_ffmpeg := (\<lambda>c. Inr (1, Inr ''no such file''))\<rparr>) ''a.png'' ''a.wav'' ''o.mp4'')) =
     [SubprocessRun (ffmpeg_cmd ''a.png'' ''a.wav'' ''o.mp4'') 60]"
proof -
  let ?w = "ex_world\<lparr>path_exists := (\<lambda>p. p = MODEL_DIR),
      run_ffmpeg := (\<lambda>c. Inr (1, Inr ''no such file''))\<rparr>"
  have e1: "path_exists ?w MODEL_DIR" by simp
  have e2: "import_torch ?w = None" by (simp add: ex_world_def)
  have e3: "\<not> path_exists ?w inference_script"
    by (simp add: inference_script_def MODEL_DIR_def WORKSPACE_def path_join_def)
  have f: "run_ffmpeg ?w (ffmpeg_cmd ''a.png'' ''a.wav'' ''o.mp4'') = Inr (1, Inr ''no such file'')"
    by simp
  from fallback_failures [OF e1 e2 e3, of "''a.png''" "''a.wav''" "''o.mp4''"] f e1 e3
  show ?thesis by simp
qed

text \<open>
  C8 as stated fails: a transcoder that cannot be started is reported under the generic
  message, and one that exceeds its 60 second bound under the timeout message shared with
  the primary strategy; neither is the FallbackFailed kind.
\<close>

theorem fallback_failures_counterexample:
  "fst (generate_video_musetalk (ex_world\<lparr>path_exists := (\<lambda>p. p = MODEL_DIR),
      run_ffmpeg := (\<lambda>c. Inl (PyExc OtherException ''[Errno 2] No such file or directory: ffmpeg''))\<rparr>)
      ''a.png'' ''a.wav'' ''o.mp4'') =
     Inl ''Video generation error: [Errno 2] No such file or directory: ffmpeg'' \<and>
   \<not> is_fallback_failed ''Video generation error: [Errno 2] No such file or directory: ffmpeg'' \<and>
   fst (generate_video_musetalk (ex_world\<lparr>path_exists := (\<lambda>p. p = MODEL_DIR),
      run_ffmpeg := (\<lambda>c. Inl (PyExc TimeoutExpired ''timed out after 60 seconds''))\<rparr>)
      ''a.png'' ''a.wav'' ''o.mp4'') =
     Inl ''Video generation timeout (>5 minutes)'' \<and>
   \<not> is_fallback_failed ''Video generation timeout (>5 minutes)''"
  by (simp add: generate_video_musetalk_def fallback_strategy_def synthesis_except_def
      is_fallback_failed_def inference_script_def MODEL_DIR_def WORKSPACE_def path_join_def
      ex_world_def)

section \<open>Stage order\<close>

lemma map_filter_append_stage:
  "List.map_filter f (xs @ ys) = List.map_filter f xs @ List.map_filter f ys"
  by (simp add: List.map_filter_def)

lemma remdups_adj_same:
  "\<forall>x\<in>set xs. x = a \<Longrightarrow> remdups_adj (a # xs @ ys) = remdups_adj (a # ys)"
  by (induction xs) simp_all

lemma remdups_adj_block:
  assumes "xs \<noteq> []" and "\<forall>x\<in>set xs. x = a"
  shows "remdups_adj (xs @ ys) = remdups_adj (a # ys)"
proof -
  obtain x xs' where xs: "xs = x # xs'" using assms(1) by (cases xs) auto
  with assms(2) have "x = a" and "\<forall>x\<in>set xs'. x = a" by simp_all
  with xs remdups_adj_same [of xs' a ys] show ?thesis by simp
qed

lemma remdups_adj_Cons_block:
  assumes "xs \<noteq> []" and "\<forall>x\<in>set xs. x = b" and "a \<noteq> b"
  shows "remdups_adj (a # xs @ ys) = a # remdups_adj (b # ys)"
proof -
  obtain x xs' where xs: "xs = x # xs'" using assms(1) by (cases xs) auto
  with assms(2) have x: "x = b" by simp
  have "remdups_adj (a # xs @ ys) = a # remdups_adj (xs @ ys)"
    using xs x assms(3) by simp
  also have "remdups_adj (xs @ ys) = remdups_adj (b # ys)"
    by (rule remdups_adj_block [OF assms(1,2)])
  finally show ?thesis .
qed

lemma png_wav: "path_join d ''input.wav'' \<noteq> path_join d ''input.png''"
  by (simp add: path_join_def)

lemma stage_download_image:
  "List.map_filter (stage_of d) (snd (download_file w u (path_join d ''input.png''))) = [FetchImage]"
  by (simp add: download_file_trace List.map_filter_def)

lemma stage_download_audio:
  "List.map_filter (stage_of d) (snd (download_file w u (path_join d ''input.wav''))) = [FetchAudio]"
  by (simp add: download_file_trace List.map_filter_def png_wav)

lemma stage_primary:
  "\<forall>s\<in>set (List.map_filter (stage_of d) (snd (primary_strategy w img aud out))). s = Synthesize"
  by (simp add: primary_strategy_def Let_def List.map_filter_def
      split: sum.splits prod.splits list.splits option.splits)

lemma stage_fallback:
  "\<forall>s\<in>set (List.map_filter (stage_of d) (snd (fallback_strategy w img aud out))). s = Synthesize"
  by (simp add: fallback_trace List.map_filter_def)

lemma stage_generate:
  "List.map_filter (stage_of d) (snd (generate_video_musetalk w img aud out)) \<noteq> [] \<and>
   (\<forall>s\<in>set (List.map_filter (stage_of d) (snd (generate_video_musetalk w img aud out))).
      s = Synthesize)"
proof (cases "path_exists w MODEL_DIR \<and> import_torch w = None")
  case False
  then show ?thesis
    by (auto simp: generate_video_musetalk_def List.map_filter_def split: option.splits)
next
  case True
  show ?thesis
  proof (cases "path_exists w inference_script")
    case True
    with \<open>path_exists w MODEL_DIR \<and> import_torch w = None\<close>
      generate_primary [of w img aud out] stage_primary [of d w img aud out]
    show ?thesis by (auto simp: map_filter_append_stage List.map_filter_def)
  next
    case False
    with \<open>path_exists w MODEL_DIR \<and> import_torch w = None\<close>
      generate_fallback [of w img aud out] stage_fallback [of d w img aud out]
    show ?thesis by (auto simp: map_filter_append_stage List.map_filter_def)
  qed
qed

lemma stage_upload:
  "List.map_filter (stage_of d) (snd (upload_to_s3 w f b k)) \<noteq> [] \<and>
   (\<forall>s\<in>set (List.map_filter (stage_of d) (snd (upload_to_s3 w f b k))). s = Publish)"
  by (simp add: upload_to_s3_def Let_def List.map_filter_def split: option.splits)

lemma stages_of_wrap:
  "stages_of d (Mkdtemp p # t @ [Rmtree x]) = stages_of d t"
  by (simp add: stages_of_def List.map_filter_def)

lemma stages_12:
  assumes "List.map_filter (stage_of d) t1 = [FetchImage]"
    and "List.map_filter (stage_of d) t2 = [FetchAudio]"
  shows "stages_of d (t1 @ t2) = [FetchImage, FetchAudio]"
  using assms by (simp add: stages_of_def map_filter_append_stage)

lemma stages_123:
  assumes "List.map_filter (stage_of d) t1 = [FetchImage]"
    and "List.map_filter (stage_of d) t2 = [FetchAudio]"
    and "List.map_filter (stage_of d) t3 \<noteq> [] \<and>
         (\<forall>s\<in>set (List.map_filter (stage_of d) t3). s = Synthesize)"
  shows "stages_of d (t1 @ t2 @ t3) = [FetchImage, FetchAudio, Synthesize]"
proof -
  let ?m3 = "List.map_filter (stage_of d) t3"
  have "remdups_adj (FetchAudio # ?m3 @ []) = FetchAudio # remdups_adj (Synthesize # [])"
    by (rule remdups_adj_Cons_block) (use assms(3) in auto)
  then have "remdups_adj (FetchImage # FetchAudio # ?m3) = [FetchImage, FetchAudio, Synthesize]"
    by simp
  then show ?thesis using assms(1,2) by (simp add: stages_of_def map_filter_append_stage)
qed

lemma stages_1234:
  assumes "List.map_filter (stage_of d) t1 = [FetchImage]"
    and "List.map_filter (stage_of d) t2 = [FetchAudio]"
    and "List.map_filter (stage_of d) t3 \<noteq> [] \<and>
         (\<forall>s\<in>set (List.map_filter (stage_of d) t3). s = Synthesize)"
    and "List.map_filter (stage_of d) t4 \<noteq> [] \<and>
         (\<forall>s\<in>set (List.map_filter (stage_of d) t4). s = Publish)"
  shows "stages_of d (t1 @ t2 @ t3 @ t4) = [FetchImage, FetchAudio, Synthesize, Publish]"
proof -
  let ?m3 = "List.map_filter (stage_of d) t3"
  let ?m4 = "List.map_filter (stage_of d) t4"
  have a: "remdups_adj (Synthesize # ?m4 @ []) = Synthesize # remdups_adj (Publish # [])"
    by (rule remdups_adj_Cons_block) (use assms(4) in auto)
  have "remdups_adj (FetchAudio # ?m3 @ ?m4) = FetchAudio # remdups_adj (Synthesize # ?m4)"
    by (rule remdups_adj_Cons_block) (use assms(3) in auto)
  with a have "remdups_adj (FetchImage # FetchAudio # ?m3 @ ?m4) =
                 [FetchImage, FetchAudio, Synthesize, Publish]"
    by simp
  then show ?thesis using assms(1,2) by (simp add: stages_of_def map_filter_append_stage)
qed

text \<open>
  C9. The stages run strictly in the order validate, fetch-image, fetch-audio,
  synthesize, publish. A job that does not pass validation makes no external call. For
  a job that passes it and has its workspace, the stages the calls went through are an
  initial part of that order, each stage as one uninterrupted run of calls; a stage is
  entered only when every stage before it returned a value; and the first stage that
  returns an error is the last one entered, its error being the result returned (the two
  fetch errors behind the prefix naming the download). When all four return a value the
  result is the success dictionary.
\<close>

theorem stage_sequence:
  "(job_fields job = None \<longrightarrow> calls (handler w job) = []) \<and>
   (job_fields job = Some (image_url, audio_url, job_id) \<and> mkdtemp w = Inr temp_dir \<longrightarrow>
      prefix (stages_of temp_dir (calls (handler w job)))
        [FetchImage, FetchAudio, Synthesize, Publish] \<and>
      (\<forall>err. fst (download_file w image_url (path_join temp_dir ''input.png'')) = Inl err \<longrightarrow>
         stages_of temp_dir (calls (handler w job)) = [FetchImage] \<and>
         ret (handler w job) = Inr (error_result (''Failed to download image: '' @ err))) \<and>
      (\<forall>p1 err. fst (download_file w image_url (path_join temp_dir ''input.png'')) = Inr p1 \<and>
         fst (download_file w audio_url (path_join temp_dir ''input.wav'')) = Inl err \<longrightarrow>
         stages_of temp_dir (calls (handler w job)) = [FetchImage, FetchAudio] \<and>
         ret (handler w job) = Inr (error_result (''Failed to download audio: '' @ err))) \<and>
      (\<forall>p1 p2 err. fst (download_file w image_url (path_join temp_dir ''input.png'')) = Inr p1 \<and>
         fst (download_file w audio_url (path_join temp_dir ''input.wav'')) = Inr p2 \<and>
         fst (generate_video_musetalk w p1 p2 (path_join temp_dir ''output.mp4'')) = Inl err \<longrightarrow>
         stages_of temp_dir (calls (handler w job)) = [FetchImage, FetchAudio, Synthesize] \<and>
         ret (handler w job) = Inr (error_result err)) \<and>
      (\<forall>p1 p2 v err. fst (download_file w image_url (path_join temp_dir ''input.png'')) = Inr p1 \<and>
         fst (download_file w audio_url (path_join temp_dir ''input.wav'')) = Inr p2 \<and>
         fst (generate_video_musetalk w p1 p2 (path_join temp_dir ''output.mp4'')) = Inr v \<and>
         fst (upload_to_s3 w v (getenv_default w ''RUNPOD_S3_BUCKET'' ''flowsmartly-avatars'')
                (''musetalk/'' @ format_val w job_id @ ''.mp4'')) = Inl err \<longrightarrow>
         stages_of temp_dir (calls (handler w job)) =
           [FetchImage, FetchAudio, Synthesize, Publish] \<and>
         ret (handler w job) = Inr (error_result err)) \<and>
      (\<forall>p1 p2 v url. fst (download_file w image_url (path_join temp_dir ''input.png'')) = Inr p1 \<and>
         fst (download_file w audio_url (path_join temp_dir ''input.wav'')) = Inr p2 \<and>
         fst (generate_video_musetalk w p1 p2 (path_join temp_dir ''output.mp4'')) = Inr v \<and>
         fst (upload_to_s3 w v (getenv_default w ''RUNPOD_S3_BUCKET'' ''flowsmartly-avatars'')
                (''musetalk/'' @ format_val w job_id @ ''.mp4'')) = Inr url \<longrightarrow>
         stages_of temp_dir (calls (handler w job)) =
           [FetchImage, FetchAudio, Synthesize, Publish] \<and>
         ret (handler w job) = Inr (success_result url job_id)))"
proof (intro conjI impI)
  assume "job_fields job = None"
  then show "calls (handler w job) = []"
    using handler_try_invalid [of job w] by (simp add: handler_calls)
next
  assume a: "job_fields job = Some (image_url, audio_url, job_id) \<and> mkdtemp w = Inr temp_dir"
  let ?P = "pipeline w image_url audio_url job_id temp_dir"
  let ?S = "stages_of temp_dir (calls (handler w job))"
  let ?bucket = "getenv_default w ''RUNPOD_S3_BUCKET'' ''flowsmartly-avatars''"
  let ?key = "''musetalk/'' @ format_val w job_id @ ''.mp4''"
  have h: "handler w job = finally_cleanup w temp_dir (Inr (fst ?P), snd ?P)"
    using a handler_valid by blast
  have S: "?S = stages_of temp_dir (snd ?P)"
    by (simp add: h finally_cleanup_def stages_of_wrap)
  have R: "ret (handler w job) = Inr (fst ?P)"
    by (simp add: h finally_cleanup_def)
  obtain r1 t1 where s1: "download_file w image_url (path_join temp_dir ''input.png'') = (r1, t1)"
    by (cases "download_file w image_url (path_join temp_dir ''input.png'')")
  obtain r2 t2 where s2: "download_file w audio_url (path_join temp_dir ''input.wav'') = (r2, t2)"
    by (cases "download_file w audio_url (path_join temp_dir ''input.wav'')")
  have m1: "List.map_filter (stage_of temp_dir) t1 = [FetchImage]"
    using stage_download_image [of temp_dir w image_url] s1 by simp
  have m2: "List.map_filter (stage_of temp_dir) t2 = [FetchAudio]"
    using stage_download_audio [of temp_dir w audio_url] s2 by simp
  have c1: "\<And>err. r1 = Inl err \<Longrightarrow> ?S = [FetchImage] \<and>
              ret (handler w job) = Inr (error_result (''Failed to download image: '' @ err))"
  proof -
    fix err assume "r1 = Inl err"
    with s1 have "?P = (error_result (''Failed to download image: '' @ err), t1)"
      by (simp add: pipeline_image_error)
    with S R m1 show "?S = [FetchImage] \<and>
              ret (handler w job) = Inr (error_result (''Failed to download image: '' @ err))"
      by (simp add: stages_of_def)
  qed
  have c2: "\<And>p1 err. r1 = Inr p1 \<Longrightarrow> r2 = Inl err \<Longrightarrow> ?S = [FetchImage, FetchAudio] \<and>
              ret (handler w job) = Inr (error_result (''Failed to download audio: '' @ err))"
  proof -
    fix p1 err assume "r1 = Inr p1" and "r2 = Inl err"
    with s1 s2 have "?P = (error_result (''Failed to download audio: '' @ err), t1 @ t2)"
      by (simp add: pipeline_audio_error)
    with S R stages_12 [OF m1 m2] show "?S = [FetchImage, FetchAudio] \<and>
              ret (handler w job) = Inr (error_result (''Failed to download audio: '' @ err))"
      by simp
  qed
  have c3: "\<And>p1 p2 err. r1 = Inr p1 \<Longrightarrow> r2 = Inr p2 \<Longrightarrow>
              fst (generate_video_musetalk w p1 p2 (path_join temp_dir ''output.mp4'')) = Inl err \<Longrightarrow>
              ?S = [FetchImage, FetchAudio, Synthesize] \<and>
              ret (handler w job) = Inr (error_result err)"
  proof -
    fix p1 p2 err assume r: "r1 = Inr p1" "r2 = Inr p2"
      and g: "fst (generate_video_musetalk w p1 p2 (path_join temp_dir ''output.mp4'')) = Inl err"
    obtain t3 where s3: "generate_video_musetalk w p1 p2 (path_join temp_dir ''output.mp4'') = (Inl err, t3)"
      using g by (cases "generate_video_musetalk w p1 p2 (path_join temp_dir ''output.mp4'')") simp
    have m3: "List.map_filter (stage_of temp_dir) t3 \<noteq> [] \<and>
         (\<forall>s\<in>set (List.map_filter (stage_of temp_dir) t3). s = Synthesize)"
      using stage_generate [of temp_dir w p1 p2 "path_join temp_dir ''output.mp4''"] s3 by simp
    from r s1 s2 s3 have "?P = (error_result err, t1 @ t2 @ t3)"
      by (simp add: pipeline_synthesis_error)
    with S R stages_123 [OF m1 m2 m3] show "?S = [FetchImage, FetchAudio, Synthesize] \<and>
              ret (handler w job) = Inr (error_result err)"
      by simp
  qed
  have c45: "\<And>p1 p2 v r4. r1 = Inr p1 \<Longrightarrow> r2 = Inr p2 \<Longrightarrow>
              fst (generate_video_musetalk w p1 p2 (path_join temp_dir ''output.mp4'')) = Inr v \<Longrightarrow>
              fst (upload_to_s3 w v ?bucket ?key) = r4 \<Longrightarrow>
              ?S = [FetchImage, FetchAudio, Synthesize, Publish] \<and>
              ret (handler w job) =
                Inr (case r4 of Inl err \<Rightarrow> error_result err | Inr url \<Rightarrow> success_result url job_id)"
  proof -
    fix p1 p2 v r4 assume r: "r1 = Inr p1" "r2 = Inr p2"
      and g: "fst (generate_video_musetalk w p1 p2 (path_join temp_dir ''output.mp4'')) = Inr v"
      and u: "fst (upload_to_s3 w v ?bucket ?key) = r4"
    obtain t3 where s3: "generate_video_musetalk w p1 p2 (path_join temp_dir ''output.mp4'') = (Inr v, t3)"
      using g by (cases "generate_video_musetalk w p1 p2 (path_join temp_dir ''output.mp4'')") simp
    obtain t4 where s4: "upload_to_s3 w v ?bucket ?key = (r4, t4)"
      using u by (cases "upload_to_s3 w v ?bucket ?key") simp
    have m3: "List.map_filter (stage_of temp_dir) t3 \<noteq> [] \<and>
         (\<forall>s\<in>set (List.map_filter (stage_of temp_dir) t3). s = Synthesize)"
      using stage_generate [of temp_dir w p1 p2 "path_join temp_dir ''output.mp4''"] s3 by simp
    have m4: "List.map_filter (stage_of temp_dir) t4 \<noteq> [] \<and>
         (\<forall>s\<in>set (List.map_filter (stage_of temp_dir) t4). s = Publish)"
      using stage_upload [of temp_dir w v ?bucket ?key] s4 by simp
    have "?P = (case r4 of Inl err \<Rightarrow> error_result err | Inr url \<Rightarrow> success_result url job_id,
                t1 @ t2 @ t3 @ t4)"
    proof (cases r4)
      case (Inl err)
      with r s1 s2 s3 s4 show ?thesis by (simp add: pipeline_publish_error)
    next
      case (Inr url)
      with r s1 s2 s3 s4 show ?thesis by (simp add: pipeline_success)
    qed
    with S R stages_1234 [OF m1 m2 m3 m4]
    show "?S = [FetchImage, FetchAudio, Synthesize, Publish] \<and>
              ret (handler w job) =
                Inr (case r4 of Inl err \<Rightarrow> error_result err | Inr url \<Rightarrow> success_result url job_id)"
      by simp
  qed
  show "prefix ?S [FetchImage, FetchAudio, Synthesize, Publish]"
  proof (cases r1)
    case (Inl err)
    from c1 [OF this] show ?thesis by simp
  next
    case p1: (Inr p1)
    show ?thesis
    proof (cases r2)
      case (Inl err)
      from c2 [OF p1 this] show ?thesis by simp
    next
      case p2: (Inr p2)
      show ?thesis
      proof (cases "fst (generate_video_musetalk w p1 p2 (path_join temp_dir ''output.mp4''))")
        case (Inl err)
        from c3 [OF p1 p2 this] show ?thesis by simp
      next
        case (Inr v)
        from c45 [OF p1 p2 this refl] show ?thesis by simp
      qed
    qed
  qed
  show "\<forall>err. fst (download_file w image_url (path_join temp_dir ''input.png'')) = Inl err \<longrightarrow>
         ?S = [FetchImage] \<and>
         ret (handler w job) = Inr (error_result (''Failed to download image: '' @ err))"
    using c1 s1 by simp
  show "\<forall>p1 err. fst (download_file w image_url (path_join temp_dir ''input.png'')) = Inr p1 \<and>
         fst (download_file w audio_url (path_join temp_dir ''input.wav'')) = Inl err \<longrightarrow>
         ?S = [FetchImage, FetchAudio] \<and>
         ret (handler w job) = Inr (error_result (''Failed to download audio: '' @ err))"
    using c2 s1 s2 by simp
  show "\<forall>p1 p2 err. fst (download_file w image_url (path_join temp_dir ''input.png'')) = Inr p1 \<and>
         fst (download_file w audio_url (path_join temp_dir ''input.wav'')) = Inr p2 \<and>
         fst (generate_video_musetalk w p1 p2 (path_join temp_dir ''output.mp4'')) = Inl err \<longrightarrow>
         ?S = [FetchImage, FetchAudio, Synthesize] \<and>
         ret (handler w job) = Inr (error_result err)"
    using c3 s1 s2 by simp
  show "\<forall>p1 p2 v err. fst (download_file w image_url (path_join temp_dir ''input.png'')) = Inr p1 \<and>
         fst (download_file w audio_url (path_join temp_dir ''input.wav'')) = Inr p2 \<and>
         fst (generate_video_musetalk w p1 p2 (path_join temp_dir ''output.mp4'')) = Inr v \<and>
         fst (upload_to_s3 w v ?bucket ?key) = Inl err \<longrightarrow>
         ?S = [FetchImage, FetchAudio, Synthesize, Publish] \<and>
         ret (handler w job) = Inr (error_result err)"
  proof (intro allI impI)
    fix p1 p2 v err
    assume x: "fst (download_file w image_url (path_join temp_dir ''input.png'')) = Inr p1 \<and>
         fst (download_file w audio_url (path_join temp_dir ''input.wav'')) = Inr p2 \<and>
         fst (generate_video_musetalk w p1 p2 (path_join temp_dir ''output.mp4'')) = Inr v \<and>
         fst (upload_to_s3 w v ?bucket ?key) = Inl err"
    then have "r1 = Inr p1" "r2 = Inr p2" using s1 s2 by simp_all
    from c45 [OF this, of v "Inl err"] x
    show "?S = [FetchImage, FetchAudio, Synthesize, Publish] \<and>
         ret (handler w job) = Inr (error_result err)"
      by simp
  qed
  show "\<forall>p1 p2 v url. fst (download_file w image_url (path_join temp_dir ''input.png'')) = Inr p1 \<and>
         fst (download_file w audio_url (path_join temp_dir ''input.wav'')) = Inr p2 \<and>
         fst (generate_video_musetalk w p1 p2 (path_join temp_dir ''output.mp4'')) = Inr v \<and>
         fst (upload_to_s3 w v ?bucket ?key) = Inr url \<longrightarrow>
         ?S = [FetchImage, FetchAudio, Synthesize, Publish] \<and>
         ret (handler w job) = Inr (success_result url job_id)"
  proof (intro allI impI)
    fix p1 p2 v url
    assume x: "fst (download_file w image_url (path_join temp_dir ''input.png'')) = Inr p1 \<and>
         fst (download_file w audio_url (path_join temp_dir ''input.wav'')) = Inr p2 \<and>
         fst (generate_video_musetalk w p1 p2 (path_join temp_dir ''output.mp4'')) = Inr v \<and>
         fst (upload_to_s3 w v ?bucket ?key) = Inr url"
    then have "r1 = Inr p1" "r2 = Inr p2" using s1 s2 by simp_all
    from c45 [OF this, of v "Inr url"] x
    show "?S = [FetchImage, FetchAudio, Synthesize, Publish] \<and>
         ret (handler w job) = Inr (success_result url job_id)"
      by simp
  qed
qed

theorem stage_sequence_witness:
  "job_fields ex_job = Some (PStr ''http://h/a.png'', PStr ''http://h/a.wav'', PStr ''j1'') \<and>
   stages_of ''/tmp/musetalk_a1b2''
     (calls (handler (ex_world\<lparr>requests_get := (\<lambda>u p. Some (PyExc RequestException ''404''))\<rparr>) ex_job)) =
     [FetchImage] \<and>
   ret (handler (ex_world\<lparr>requests_get := (\<lambda>u p. Some (PyExc RequestException ''404''))\<rparr>) ex_job) =
     Inr (error_result ''Failed to download image: Download failed: 404'') \<and>
   prefix (stages_of ''/tmp/musetalk_a1b2'' (calls (handler ex_world ex_job)))
     [FetchImage, FetchAudio, Synthesize, Publish]"
proof -
  let ?w = "ex_world\<lparr>requests_get := (\<lambda>u p. Some (PyExc RequestException ''404''))\<rparr>"
  have m: "mkdtemp ?w = Inr ''/tmp/musetalk_a1b2''" by (simp add: ex_world_def)
  have m': "mkdtemp ex_world = Inr ''/tmp/musetalk_a1b2''" by (simp add: ex_world_def)
  have d: "fst (download_file ?w (PStr ''http://h/a.png'') (path_join ''/tmp/musetalk_a1b2'' ''input.png'')) =
             Inl ''Download failed: 404''"
    by (simp add: download_file_def)
  from stage_sequence [of ex_job ?w "PStr ''http://h/a.png''" "PStr ''http://h/a.wav''" "PStr ''j1''"
         "''/tmp/musetalk_a1b2''"] ex_job_fields m d
  have a: "stages_of ''/tmp/musetalk_a1b2'' (calls (handler ?w ex_job)) = [FetchImage] \<and>
           ret (handler ?w ex_job) = Inr (error_result (''Failed to download image: '' @ ''Download failed: 404''))"
    by blast
  from stage_sequence [of ex_job ex_world "PStr ''http://h/a.png''" "PStr ''http://h/a.wav''" "PStr ''j1''"
         "''/tmp/musetalk_a1b2''"] ex_job_fields m'
  have b: "prefix (stages_of ''/tmp/musetalk_a1b2'' (calls (handler ex_world ex_job)))
     [FetchImage, FetchAudio, Synthesize, Publish]"
    by blast
  from a b ex_job_fields show ?thesis by simp
qed

section \<open>A job without an id\<close>

lemma result_shapes_differ: "error_result msg \<noteq> success_result url j"
  by (simp add: error_result_def success_result_def)

lemma success_result_inject:
  "success_result url j = success_result url' j' \<Longrightarrow> url = url' \<and> j = j'"
  by (simp add: success_result_def)

lemma upload_ok_event:
  "upload_to_s3 w f b k = (Inr url, t) \<Longrightarrow> UploadFile f b k \<in> set t"
  by (auto simp: upload_to_s3_def Let_def split: option.splits if_splits)

lemma pipeline_success_inv:
  assumes "fst (pipeline w iu au jid d) = success_result url j"
  shows "j = jid \<and>
         UploadFile (path_join d ''output.mp4'')
           (getenv_default w ''RUNPOD_S3_BUCKET'' ''flowsmartly-avatars'')
           (''musetalk/'' @ format_val w jid @ ''.mp4'') \<in> set (snd (pipeline w iu au jid d)) \<and>
         (\<exists>endpoint. url = endpoint @ ''/'' @
            getenv_default w ''RUNPOD_S3_BUCKET'' ''flowsmartly-avatars'' @ ''/'' @
            ''musetalk/'' @ format_val w jid @ ''.mp4'')"
proof -
  let ?bucket = "getenv_default w ''RUNPOD_S3_BUCKET'' ''flowsmartly-avatars''"
  let ?key = "''musetalk/'' @ format_val w jid @ ''.mp4''"
  obtain r1 t1 where s1: "download_file w iu (path_join d ''input.png'') = (r1, t1)"
    by (cases "download_file w iu (path_join d ''input.png'')")
  obtain r2 t2 where s2: "download_file w au (path_join d ''input.wav'') = (r2, t2)"
    by (cases "download_file w au (path_join d ''input.wav'')")
  show ?thesis
  proof (cases r1)
    case (Inl err)
    with s1 assms show ?thesis by (simp add: pipeline_image_error result_shapes_differ)
  next
    case p1: (Inr p1)
    show ?thesis
    proof (cases r2)
      case (Inl err)
      with s1 s2 p1 assms show ?thesis by (simp add: pipeline_audio_error result_shapes_differ)
    next
      case p2: (Inr p2)
      obtain r3 t3 where
        s3: "generate_video_musetalk w p1 p2 (path_join d ''output.mp4'') = (r3, t3)"
        by (cases "generate_video_musetalk w p1 p2 (path_join d ''output.mp4'')")
      show ?thesis
      proof (cases r3)
        case (Inl err)
        with s1 s2 s3 p1 p2 assms show ?thesis
          by (simp add: pipeline_synthesis_error result_shapes_differ)
      next
        case v: (Inr v)
        have e3: "v = path_join d ''output.mp4''" using s3 v generate_Inr by blast
        obtain r4 t4 where s4: "upload_to_s3 w v ?bucket ?key = (r4, t4)"
          by (cases "upload_to_s3 w v ?bucket ?key")
        show ?thesis
        proof (cases r4)
          case (Inl err)
          with s1 s2 s3 s4 p1 p2 v assms show ?thesis
            by (simp add: pipeline_publish_error result_shapes_differ)
        next
          case (Inr url')
          with s1 s2 s3 s4 p1 p2 v
          have P: "pipeline w iu au jid d = (success_result url' jid, t1 @ t2 @ t3 @ t4)"
            by (simp add: pipeline_success)
          with assms have q: "url = url' \<and> j = jid"
            using success_result_inject [of url' jid url j] by simp
          have ev: "UploadFile v ?bucket ?key \<in> set t4"
            using upload_ok_event s4 Inr by blast
          have uf: "\<exists>endpoint. url' = endpoint @ ''/'' @ ?bucket @ ''/'' @ ?key"
            using upload_url_form s4 Inr by blast
          from P q ev uf e3 show ?thesis by simp
        qed
      qed
    qed
  qed
qed

lemma handler_success_inv:
  assumes "ret (handler w job) = Inr (success_result url j)"
  shows "\<exists>iu au jid d. job_fields job = Some (iu, au, jid) \<and> mkdtemp w = Inr d \<and>
           fst (pipeline w iu au jid d) = success_result url j \<and>
           calls (handler w job) = Mkdtemp ''musetalk_'' # snd (pipeline w iu au jid d) @ [Rmtree d]"
proof (cases "ret (handler_try w job)")
  case (Inl e)
  then have "ret (handler w job) = Inr (error_result (''Handler error: '' @ exc_str e))"
    by (simp add: handler_def)
  with assms show ?thesis by (simp add: result_shapes_differ)
next
  case (Inr v)
  then have v: "v = success_result url j" using assms by (simp add: handler_def)
  show ?thesis
  proof (cases "job_fields job")
    case None
    from handler_try_calls_nil [OF None Inr] v show ?thesis
      by (auto simp: result_shapes_differ [symmetric])
  next
    case (Some x)
    obtain iu au jid where x: "x = (iu, au, jid)" by (cases x)
    show ?thesis
    proof (cases "mkdtemp w")
      case e: (Inl e)
      from job_fields_SomeD [OF Some [unfolded x]] e Inr show ?thesis
        by (auto simp: handler_try_def)
    next
      case d: (Inr d)
      from handler_valid [OF Some [unfolded x] d] assms
      have "fst (pipeline w iu au jid d) = success_result url j"
        and "calls (handler w job) = Mkdtemp ''musetalk_'' # snd (pipeline w iu au jid d) @ [Rmtree d]"
        by (simp_all add: finally_cleanup_def)
      with Some x d show ?thesis by blast
    qed
  qed
qed

text \<open>
  C10. A job dictionary without the key \<^verbatim>\<open>id\<close> is handled exactly as the same job
  with the id \<^verbatim>\<open>unknown\<close>: it is not rejected for the missing id, and whenever its run
  succeeds the result carries the job id \<^verbatim>\<open>unknown\<close>, the artifact was uploaded under
  the object key \<^verbatim>\<open>musetalk/unknown.mp4\<close> and the address returned ends with that key.
\<close>

theorem missing_id_unknown:
  assumes "job = PDict kvs" and "map_of kvs ''id'' = None"
  shows "handler w job = handler w (PDict ((''id'', PStr ''unknown'') # kvs)) \<and>
         (\<forall>url j. ret (handler w job) = Inr (success_result url j) \<longrightarrow>
            j = PStr ''unknown'' \<and>
            (\<exists>f b. UploadFile f b ''musetalk/unknown.mp4'' \<in> set (calls (handler w job))) \<and>
            (\<exists>endpoint b. url = endpoint @ ''/'' @ b @ ''/musetalk/unknown.mp4''))"
proof (intro conjI allI impI)
  have "handler_try w job = handler_try w (PDict ((''id'', PStr ''unknown'') # kvs))"
    using assms by (simp add: handler_try_def dict_get_def)
  then show "handler w job = handler w (PDict ((''id'', PStr ''unknown'') # kvs))"
    by (simp add: handler_def)
next
  fix url j
  assume s: "ret (handler w job) = Inr (success_result url j)"
  from handler_success_inv [OF s] obtain iu au jid d where
    jf: "job_fields job = Some (iu, au, jid)" and
    p: "fst (pipeline w iu au jid d) = success_result url j" and
    c: "calls (handler w job) = Mkdtemp ''musetalk_'' # snd (pipeline w iu au jid d) @ [Rmtree d]"
    by blast
  from job_fields_SomeD [OF jf] assms have jid: "jid = PStr ''unknown''"
    by (auto simp: dict_get_def)
  have fv: "''musetalk/'' @ format_val w jid @ ''.mp4'' = ''musetalk/unknown.mp4''"
    by (simp add: jid format_val_def)
  from pipeline_success_inv [OF p] have
    j: "j = jid" and
    ev: "UploadFile (path_join d ''output.mp4'')
           (getenv_default w ''RUNPOD_S3_BUCKET'' ''flowsmartly-avatars'')
           (''musetalk/'' @ format_val w jid @ ''.mp4'') \<in> set (snd (pipeline w iu au jid d))" and
    uf: "\<exists>endpoint. url = endpoint @ ''/'' @
            getenv_default w ''RUNPOD_S3_BUCKET'' ''flowsmartly-avatars'' @ ''/'' @
            ''musetalk/'' @ format_val w jid @ ''.mp4''"
    by blast+
  show "j = PStr ''unknown''" using j jid by simp
  show "\<exists>f b. UploadFile f b ''musetalk/unknown.mp4'' \<in> set (calls (handler w job))"
    using ev c unfolding fv by auto
  from uf obtain endpoint where
    "url = endpoint @ ''/'' @ getenv_default w ''RUNPOD_S3_BUCKET'' ''flowsmartly-avatars'' @ ''/'' @
            ''musetalk/unknown.mp4''"
    unfolding fv by blast
  then have "url = endpoint @ ''/'' @ getenv_default w ''RUNPOD_S3_BUCKET'' ''flowsmartly-avatars''
               @ ''/musetalk/unknown.mp4''"
    by simp
  then show "\<exists>endpoint b. url = endpoint @ ''/'' @ b @ ''/musetalk/unknown.mp4''"
    by blast
qed

theorem missing_id_unknown_witness:
  "map_of [(''input'', PDict [(''input_image_url'', PStr ''http://h/a.png''),
                              (''input_audio_url'', PStr ''http://h/a.wav'')])] ''id'' = None \<and>
   ret (handler ex_world
          (PDict [(''input'', PDict [(''input_image_url'', PStr ''http://h/a.png''),
                                     (''input_audio_url'', PStr ''http://h/a.wav'')])])) =
     Inr (success_result ''https://storage.runpod.io/flowsmartly-avatars/musetalk/unknown.mp4''
            (PStr ''unknown'')) \<and>
   (\<exists>f b. UploadFile f b ''musetalk/unknown.mp4'' \<in>
      set (calls (handler ex_world
          (PDict [(''input'', PDict [(''input_image_url'', PStr ''http://h/a.png''),
                                     (''input_audio_url'', PStr ''http://h/a.wav'')])]))))"
proof -
  let ?kvs = "[(''input'', PDict [(''input_image_url'', PStr ''http://h/a.png''),
                              (''input_audio_url'', PStr ''http://h/a.wav'')])]"
  have n: "map_of ?kvs ''id'' = None" by simp
  have r: "ret (handler ex_world (PDict ?kvs)) =
     Inr (success_result ''https://storage.runpod.io/flowsmartly-avatars/musetalk/unknown.mp4''
            (PStr ''unknown''))"
    by code_simp
  from missing_id_unknown [OF refl n, of ex_world] r n show ?thesis by blast
qed

end
